theory Spec2Isabelle
  imports Complex_Main
begin

section \<open>JavaScript values\<close>

text \<open>
  The fitting pipeline of the virtual try-on (class ClothingFit) is embedded as HOL
  functions. JavaScript numbers are modelled as mathematical reals: rounding, infinities
  and NaN are outside the model, so the model follows the code as long as no divisor is
  zero, and a statement about a value that the code computes by division assumes that
  the divisor is not zero. A method that mutates \<open>this\<close> takes the ClothingFit state and
  returns the new one.

  Reading a property of \<open>null\<close> or \<open>undefined\<close> throws a TypeError in
  JavaScript. The source never writes \<open>throw\<close>, so these property reads are the only way
  the modelled methods can raise; each is a branch of the model.
\<close>

datatype js_error = TypeError

datatype 'a result = Throws js_error | Returns 'a

definition andThen :: "'a result \<Rightarrow> ('a \<Rightarrow> 'b result) \<Rightarrow> 'b result" where
  "andThen r f = (case r of Throws e \<Rightarrow> Throws e | Returns v \<Rightarrow> f v)"

text \<open>
  An entry of the keypoint array. \<open>Undefined\<close> and \<open>Null\<close> are the two missing
  values; \<open>Keypoint x y z visibility\<close> is an object, whose \<open>x\<close> is \<open>None\<close> when the
  field is absent or is not a number. The fields \<open>y\<close> and \<open>z\<close> of an object are numbers,
  as the pose detector produces them.
\<close>

datatype keypoint =
    Undefined
  | Null
  | Keypoint (kx: "real option") (ky: real) (kz: real) (kvisibility: real)

fun truthy :: "keypoint \<Rightarrow> bool" where
  "truthy Undefined = False"
| "truthy Null = False"
| "truthy (Keypoint x y z v) = True"

fun getX :: "keypoint \<Rightarrow> real option result" where
  "getX Undefined = Throws TypeError"
| "getX Null = Throws TypeError"
| "getX (Keypoint x y z v) = Returns x"

fun getY :: "keypoint \<Rightarrow> real result" where
  "getY Undefined = Throws TypeError"
| "getY Null = Throws TypeError"
| "getY (Keypoint x y z v) = Returns y"

fun getZ :: "keypoint \<Rightarrow> real result" where
  "getZ Undefined = Throws TypeError"
| "getZ Null = Throws TypeError"
| "getZ (Keypoint x y z v) = Returns z"

text \<open>\<open>keypoints[i]\<close>: reading an array past its end gives \<open>undefined\<close>.\<close>

definition entryAt :: "keypoint list \<Rightarrow> nat \<Rightarrow> keypoint" where
  "entryAt keypoints i = (if i < length keypoints then keypoints ! i else Undefined)"


section \<open>The three.js vector type\<close>

text \<open>
  three.js is an external library. The methods of \<open>THREE.Vector3\<close> that the source calls
  are modelled on values: a method that changes its receiver returns the changed vector.
  \<open>normalize\<close> divides by \<open>length() || 1\<close>, so the zero vector stays the zero vector.
\<close>

datatype Vector3 = Vector3 (vx: real) (vy: real) (vz: real)

definition addVectors :: "Vector3 \<Rightarrow> Vector3 \<Rightarrow> Vector3" where
  "addVectors a b = Vector3 (vx a + vx b) (vy a + vy b) (vz a + vz b)"

definition subVectors :: "Vector3 \<Rightarrow> Vector3 \<Rightarrow> Vector3" where
  "subVectors a b = Vector3 (vx a - vx b) (vy a - vy b) (vz a - vz b)"

definition multiplyScalar :: "Vector3 \<Rightarrow> real \<Rightarrow> Vector3" where
  "multiplyScalar v s = Vector3 (vx v * s) (vy v * s) (vz v * s)"

definition negate :: "Vector3 \<Rightarrow> Vector3" where
  "negate v = Vector3 (- vx v) (- vy v) (- vz v)"

definition dot :: "Vector3 \<Rightarrow> Vector3 \<Rightarrow> real" where
  "dot a b = vx a * vx b + vy a * vy b + vz a * vz b"

definition crossVectors :: "Vector3 \<Rightarrow> Vector3 \<Rightarrow> Vector3" where
  "crossVectors a b =
     Vector3 (vy a * vz b - vz a * vy b) (vz a * vx b - vx a * vz b) (vx a * vy b - vy a * vx b)"

definition vlength :: "Vector3 \<Rightarrow> real" where
  "vlength v = sqrt (vx v * vx v + vy v * vy v + vz v * vz v)"

definition distanceToSquared :: "Vector3 \<Rightarrow> Vector3 \<Rightarrow> real" where
  "distanceToSquared a b =
     (let dx = vx a - vx b; dy = vy a - vy b; dz = vz a - vz b in dx * dx + dy * dy + dz * dz)"

definition distanceTo :: "Vector3 \<Rightarrow> Vector3 \<Rightarrow> real" where
  "distanceTo a b = sqrt (distanceToSquared a b)"

definition divideScalar :: "Vector3 \<Rightarrow> real \<Rightarrow> Vector3" where
  "divideScalar v s = multiplyScalar v (1 / s)"

definition normalize :: "Vector3 \<Rightarrow> Vector3" where
  "normalize v = divideScalar v (if vlength v = 0 then 1 else vlength v)"

definition lerp :: "Vector3 \<Rightarrow> Vector3 \<Rightarrow> real \<Rightarrow> Vector3" where
  "lerp v target alpha =
     Vector3 (vx v + (vx target - vx v) * alpha)
             (vy v + (vy target - vy v) * alpha)
             (vz v + (vz target - vz v) * alpha)"

text \<open>
  \<open>THREE.Quaternion\<close>: \<open>new THREE.Quaternion()\<close> is the identity rotation. The two
  quaternion computations of the library that the source calls, building a quaternion
  from a basis (\<open>Matrix4.makeBasis\<close> followed by \<open>setFromRotationMatrix\<close>) and \<open>slerp\<close>,
  are parameters of the model, so that a general statement holds for any implementation
  of them. The library's own algorithms are modelled below and are what the examples
  are evaluated with.
\<close>

datatype Quaternion = Quaternion (qx: real) (qy: real) (qz: real) (qw: real)

definition newQuaternion :: Quaternion where
  "newQuaternion = Quaternion 0 0 0 1"

record QuaternionOps =
  setFromBasis :: "Vector3 \<Rightarrow> Vector3 \<Rightarrow> Vector3 \<Rightarrow> Quaternion"
  slerp :: "Quaternion \<Rightarrow> Quaternion \<Rightarrow> real \<Rightarrow> Quaternion"

text \<open>
  \<open>new THREE.Matrix4().makeBasis(xAxis, yAxis, zAxis)\<close> has the three vectors as the
  columns of its rotation part, and \<open>Quaternion.setFromRotationMatrix\<close> reads that part:
  the branch is chosen by the trace and by the largest diagonal entry.
\<close>

definition setFromRotationMatrix :: "Vector3 \<Rightarrow> Vector3 \<Rightarrow> Vector3 \<Rightarrow> Quaternion" where
  "setFromRotationMatrix xAxis yAxis zAxis =
     (let m11 = vx xAxis; m12 = vx yAxis; m13 = vx zAxis;
          m21 = vy xAxis; m22 = vy yAxis; m23 = vy zAxis;
          m31 = vz xAxis; m32 = vz yAxis; m33 = vz zAxis;
          trace = m11 + m22 + m33
      in
      if trace > 0 then
        (let s = 0.5 / sqrt (trace + 1)
         in Quaternion ((m32 - m23) * s) ((m13 - m31) * s) ((m21 - m12) * s) (0.25 / s))
      else if m11 > m22 \<and> m11 > m33 then
        (let s = 2 * sqrt (1 + m11 - m22 - m33)
         in Quaternion (0.25 * s) ((m12 + m21) / s) ((m13 + m31) / s) ((m32 - m23) / s))
      else if m22 > m33 then
        (let s = 2 * sqrt (1 + m22 - m11 - m33)
         in Quaternion ((m12 + m21) / s) (0.25 * s) ((m23 + m32) / s) ((m13 - m31) / s))
      else
        (let s = 2 * sqrt (1 + m33 - m11 - m22)
         in Quaternion ((m13 + m31) / s) ((m23 + m32) / s) (0.25 * s) ((m21 - m12) / s)))"

text \<open>
  \<open>Math.atan2(y, x)\<close> on the reals, \<open>Quaternion.normalize\<close> and \<open>Number.EPSILON\<close>, which
  \<open>Quaternion.slerp\<close> uses. \<open>slerp\<close> returns the receiver for \<open>t = 0\<close> and the other
  quaternion for \<open>t = 1\<close>, takes the shorter arc, interpolates linearly when the two are
  almost equal, and otherwise weights them by the sines of the two parts of the half
  angle.
\<close>

definition atan2 :: "real \<Rightarrow> real \<Rightarrow> real" where
  "atan2 y x =
     (if x > 0 then arctan (y / x)
      else if x < 0 then (if y \<ge> 0 then arctan (y / x) + pi else arctan (y / x) - pi)
      else if y > 0 then pi / 2
      else if y < 0 then - (pi / 2)
      else 0)"

definition quaternionNormalize :: "Quaternion \<Rightarrow> Quaternion" where
  "quaternionNormalize q =
     (let l = sqrt (qx q * qx q + qy q * qy q + qz q * qz q + qw q * qw q)
      in if l = 0 then Quaternion 0 0 0 1
         else Quaternion (qx q * (1 / l)) (qy q * (1 / l)) (qz q * (1 / l)) (qw q * (1 / l)))"

definition numberEPSILON :: real where
  "numberEPSILON = 1 / 2 ^ 52"

definition quaternionSlerp :: "Quaternion \<Rightarrow> Quaternion \<Rightarrow> real \<Rightarrow> Quaternion" where
  "quaternionSlerp q qb t =
     (if t = 0 then q
      else if t = 1 then qb
      else
        let x = qx q; y = qy q; z = qz q; w = qw q;
            cosHalfTheta0 = w * qw qb + x * qx qb + y * qy qb + z * qz qb;
            q1 = (if cosHalfTheta0 < 0
                  then Quaternion (- qx qb) (- qy qb) (- qz qb) (- qw qb) else qb);
            cosHalfTheta = (if cosHalfTheta0 < 0 then - cosHalfTheta0 else cosHalfTheta0)
        in
        if cosHalfTheta \<ge> 1 then q
        else
          let sqrSinHalfTheta = 1 - cosHalfTheta * cosHalfTheta
          in
          if sqrSinHalfTheta \<le> numberEPSILON then
            (let s = 1 - t
             in quaternionNormalize
                  (Quaternion (s * x + t * qx q1) (s * y + t * qy q1) (s * z + t * qz q1)
                              (s * w + t * qw q1)))
          else
            let sinHalfTheta = sqrt sqrSinHalfTheta;
                halfTheta = atan2 sinHalfTheta cosHalfTheta;
                ratioA = sin ((1 - t) * halfTheta) / sinHalfTheta;
                ratioB = sin (t * halfTheta) / sinHalfTheta
            in Quaternion (x * ratioA + qx q1 * ratioB) (y * ratioA + qy q1 * ratioB)
                          (z * ratioA + qz q1 * ratioB) (w * ratioA + qw q1 * ratioB))"


section \<open>The state of ClothingFit\<close>

record BodyMeasurements =
  shoulderWidth :: real
  torsoLength :: real
  armLength :: real
  legLength :: real
  hipWidth :: real

record FitQuality =
  overall :: real
  shoulders :: real
  torso :: real
  arms :: real
  legs :: real

record Transform =
  position :: Vector3
  rotation :: Quaternion
  scale :: Vector3

record ClothingFit =
  smoothingFactor :: real
  previousTransforms :: "string \<rightharpoonup> Transform"
  userMeasurements :: BodyMeasurements
  isCalibrated :: bool
  fitQuality :: FitQuality

text \<open>The constructor.\<close>

definition newClothingFit :: ClothingFit where
  "newClothingFit =
     \<lparr> smoothingFactor = 0.8,
       previousTransforms = Map.empty,
       userMeasurements =
         \<lparr> shoulderWidth = 0, torsoLength = 0, armLength = 0, legLength = 0, hipWidth = 0 \<rparr>,
       isCalibrated = False,
       fitQuality = \<lparr> overall = 0, shoulders = 0, torso = 0, arms = 0, legs = 0 \<rparr> \<rparr>"


section \<open>Keypoints to vectors\<close>

definition keypointToVector3 :: "keypoint \<Rightarrow> Vector3 result" where
  "keypointToVector3 keypoint =
     (if \<not> truthy keypoint then Returns (Vector3 0 0 0)
      else andThen (getX keypoint) (\<lambda>x.
        case x of
          None \<Rightarrow> Returns (Vector3 0 0 0)
        | Some xv \<Rightarrow>
            andThen (getY keypoint) (\<lambda>y.
            andThen (getZ keypoint) (\<lambda>z.
              Returns (Vector3 xv (- y) (- z))))))"

text \<open>
  The block "Get key landmarks", which \<open>updateModelFit\<close> and
  \<open>calculateBodyMeasurements\<close> both start with, in the order of the source.
\<close>

record Landmarks =
  leftShoulder :: Vector3
  rightShoulder :: Vector3
  leftHip :: Vector3
  rightHip :: Vector3
  leftElbow :: Vector3
  rightElbow :: Vector3
  leftWrist :: Vector3
  rightWrist :: Vector3
  leftKnee :: Vector3
  rightKnee :: Vector3
  leftAnkle :: Vector3
  rightAnkle :: Vector3

definition getKeyLandmarks :: "keypoint list \<Rightarrow> Landmarks result" where
  "getKeyLandmarks keypoints =
     andThen (keypointToVector3 (entryAt keypoints 11)) (\<lambda>ls.
     andThen (keypointToVector3 (entryAt keypoints 12)) (\<lambda>rs.
     andThen (keypointToVector3 (entryAt keypoints 23)) (\<lambda>lh.
     andThen (keypointToVector3 (entryAt keypoints 24)) (\<lambda>rh.
     andThen (keypointToVector3 (entryAt keypoints 13)) (\<lambda>le.
     andThen (keypointToVector3 (entryAt keypoints 14)) (\<lambda>re.
     andThen (keypointToVector3 (entryAt keypoints 15)) (\<lambda>lw.
     andThen (keypointToVector3 (entryAt keypoints 16)) (\<lambda>rw.
     andThen (keypointToVector3 (entryAt keypoints 25)) (\<lambda>lk.
     andThen (keypointToVector3 (entryAt keypoints 26)) (\<lambda>rk.
     andThen (keypointToVector3 (entryAt keypoints 27)) (\<lambda>la.
     andThen (keypointToVector3 (entryAt keypoints 28)) (\<lambda>ra.
       Returns \<lparr> leftShoulder = ls, rightShoulder = rs, leftHip = lh, rightHip = rh,
                 leftElbow = le, rightElbow = re, leftWrist = lw, rightWrist = rw,
                 leftKnee = lk, rightKnee = rk, leftAnkle = la, rightAnkle = ra \<rparr>))))))))))))"


section \<open>Measurement extraction\<close>

definition calculateBodyMeasurements :: "keypoint list option \<Rightarrow> ClothingFit \<Rightarrow> ClothingFit result" where
  "calculateBodyMeasurements keypoints this =
     (case keypoints of
        None \<Rightarrow> Returns this
      | Some kps \<Rightarrow>
          if length kps < 33 then Returns this
          else andThen (getKeyLandmarks kps) (\<lambda>lm.
            let shoulderMidpoint = multiplyScalar (addVectors (leftShoulder lm) (rightShoulder lm)) 0.5;
                hipMidpoint = multiplyScalar (addVectors (leftHip lm) (rightHip lm)) 0.5;
                leftArmLength = distanceTo (leftShoulder lm) (leftElbow lm)
                              + distanceTo (leftElbow lm) (leftWrist lm);
                rightArmLength = distanceTo (rightShoulder lm) (rightElbow lm)
                               + distanceTo (rightElbow lm) (rightWrist lm);
                leftLegLength = distanceTo (leftHip lm) (leftKnee lm)
                              + distanceTo (leftKnee lm) (leftAnkle lm);
                rightLegLength = distanceTo (rightHip lm) (rightKnee lm)
                               + distanceTo (rightKnee lm) (rightAnkle lm)
            in Returns (this\<lparr> userMeasurements :=
                 (userMeasurements this)
                   \<lparr> shoulderWidth := distanceTo (leftShoulder lm) (rightShoulder lm),
                     hipWidth := distanceTo (leftHip lm) (rightHip lm),
                     torsoLength := distanceTo shoulderMidpoint hipMidpoint,
                     armLength := (leftArmLength + rightArmLength) / 2,
                     legLength := (leftLegLength + rightLegLength) / 2 \<rparr> \<rparr>)))"

definition getMeasurements :: "ClothingFit \<Rightarrow> BodyMeasurements" where
  "getMeasurements this = userMeasurements this"

definition isBodyCalibrated :: "ClothingFit \<Rightarrow> bool" where
  "isBodyCalibrated this = isCalibrated this"


section \<open>Calibration\<close>

definition checkTpose :: "keypoint list option \<Rightarrow> bool result" where
  "checkTpose keypoints =
     (case keypoints of
        None \<Rightarrow> Returns False
      | Some kps \<Rightarrow>
          if length kps < 33 then Returns False
          else
            andThen (keypointToVector3 (entryAt kps 11)) (\<lambda>leftShoulder.
            andThen (keypointToVector3 (entryAt kps 12)) (\<lambda>rightShoulder.
            andThen (keypointToVector3 (entryAt kps 13)) (\<lambda>leftElbow.
            andThen (keypointToVector3 (entryAt kps 14)) (\<lambda>rightElbow.
            andThen (keypointToVector3 (entryAt kps 15)) (\<lambda>leftWrist.
            andThen (keypointToVector3 (entryAt kps 16)) (\<lambda>rightWrist.
            andThen (keypointToVector3 (entryAt kps 23)) (\<lambda>leftHip.
            andThen (keypointToVector3 (entryAt kps 24)) (\<lambda>rightHip.
              let leftArmVector = normalize (subVectors leftWrist leftShoulder);
                  rightArmVector = normalize (subVectors rightWrist rightShoulder);
                  torsoVector = normalize (subVectors
                      (multiplyScalar (addVectors leftShoulder rightShoulder) 0.5)
                      (multiplyScalar (addVectors leftHip rightHip) 0.5));
                  leftDot = \<bar>dot leftArmVector torsoVector\<bar>;
                  rightDot = \<bar>dot rightArmVector torsoVector\<bar>;
                  armThreshold = 0.3
              in Returns (leftDot < armThreshold \<and> rightDot < armThreshold))))))))))"

definition calibrate :: "keypoint list option \<Rightarrow> ClothingFit \<Rightarrow> (bool \<times> ClothingFit) result" where
  "calibrate keypoints this =
     (case keypoints of
        None \<Rightarrow> Returns (False, this)
      | Some kps \<Rightarrow>
          if length kps < 33 then Returns (False, this)
          else andThen (checkTpose keypoints) (\<lambda>isTpose.
            if \<not> isTpose then Returns (False, this)
            else andThen (calculateBodyMeasurements keypoints this) (\<lambda>this1.
              Returns (True, this1\<lparr> isCalibrated := True \<rparr>))))"


section \<open>Fit quality\<close>

definition calculateQualityScore :: "real \<Rightarrow> real \<Rightarrow> real \<Rightarrow> real" where
  "calculateQualityScore ratio minIdeal maxIdeal =
     (if ratio \<ge> minIdeal \<and> ratio \<le> maxIdeal then 1.0
      else if ratio < minIdeal then (let deviation = minIdeal - ratio in max 0 (1 - deviation * 2))
      else (let deviation = ratio - maxIdeal in max 0 (1 - deviation * 2)))"

text \<open>
  The rendered model (a \<open>THREE.Object3D\<close>): the fields of it that the source reads and
  writes.
\<close>

record Object3D =
  uuid :: string
  modelPosition :: Vector3
  modelQuaternion :: Quaternion
  modelScale :: Vector3

definition resetFitQuality :: FitQuality where
  "resetFitQuality = \<lparr> overall = 0, shoulders = 0, torso = 0, arms = 0, legs = 0 \<rparr>"

definition calculateFitQuality ::
    "string \<Rightarrow> keypoint list option \<Rightarrow> Object3D option \<Rightarrow> ClothingFit \<Rightarrow> ClothingFit" where
  "calculateFitQuality modelType keypoints model this =
     (case keypoints of
        None \<Rightarrow> this
      | Some kps \<Rightarrow>
          if length kps < 33 then this
          else (case model of
            None \<Rightarrow> this
          | Some m \<Rightarrow>
              let um = userMeasurements this in
              if modelType = ''tshirt'' \<or> modelType = ''shirt'' then
                let shoulderRatio = shoulderWidth um / (vx (modelScale m) * 0.4);
                    shoulders' = calculateQualityScore shoulderRatio 0.9 1.1;
                    torsoRatio = torsoLength um / (vy (modelScale m) * 0.6);
                    torso' = calculateQualityScore torsoRatio 0.9 1.1
                in this\<lparr> fitQuality := resetFitQuality
                     \<lparr> shoulders := shoulders', torso := torso',
                       overall := shoulders' * 0.6 + torso' * 0.4 \<rparr> \<rparr>
              else if modelType = ''jacket'' \<or> modelType = ''hoodie'' then
                let jacketShoulderRatio = shoulderWidth um / (vx (modelScale m) * 0.44);
                    shoulders' = calculateQualityScore jacketShoulderRatio 0.85 1.05;
                    jacketTorsoRatio = torsoLength um / (vy (modelScale m) * 0.63);
                    torso' = calculateQualityScore jacketTorsoRatio 0.85 1.05;
                    armRatio = armLength um / (vx (modelScale m) * 0.7);
                    arms' = calculateQualityScore armRatio 0.9 1.1
                in this\<lparr> fitQuality := resetFitQuality
                     \<lparr> shoulders := shoulders', torso := torso', arms := arms',
                       overall := shoulders' * 0.4 + torso' * 0.3 + arms' * 0.3 \<rparr> \<rparr>
              else if modelType = ''pants'' then
                let hipRatio = hipWidth um / (vx (modelScale m) * 0.4);
                    torso' = calculateQualityScore hipRatio 0.9 1.1;
                    legRatio = legLength um / (vy (modelScale m) * 0.9);
                    legs' = calculateQualityScore legRatio 0.9 1.1
                in this\<lparr> fitQuality := resetFitQuality
                     \<lparr> torso := torso', legs := legs',
                       overall := torso' * 0.4 + legs' * 0.6 \<rparr> \<rparr>
              else this\<lparr> fitQuality := resetFitQuality \<rparr>))"

definition getFitQuality :: "ClothingFit \<Rightarrow> FitQuality" where
  "getFitQuality this = fitQuality this"

definition setSmoothingFactor :: "real \<Rightarrow> ClothingFit \<Rightarrow> ClothingFit" where
  "setSmoothingFactor factor this = this\<lparr> smoothingFactor := max 0 (min 1 factor) \<rparr>"


section \<open>The garment transform\<close>

text \<open>
  The \<open>switch (modelType)\<close> of \<open>updateModelFit\<close>: the target position, rotation and
  scale, before smoothing. In the branch for pants, \<open>legVector.negate()\<close> changes
  \<open>legVector\<close> after the forward vector has been computed from it.
\<close>

definition targetTransform ::
    "QuaternionOps \<Rightarrow> string \<Rightarrow> real \<Rightarrow> BodyMeasurements \<Rightarrow> Landmarks \<Rightarrow> Transform" where
  "targetTransform ops modelType sizeAdjustment baseMeasurements lm =
     (let shoulderMidpoint = multiplyScalar (addVectors (leftShoulder lm) (rightShoulder lm)) 0.5;
          hipMidpoint = multiplyScalar (addVectors (leftHip lm) (rightHip lm)) 0.5
      in
      if modelType = ''tshirt'' \<or> modelType = ''shirt'' then
        let shoulderWidth' = distanceTo (leftShoulder lm) (rightShoulder lm);
            torsoLength' = distanceTo shoulderMidpoint hipMidpoint;
            shoulderScale = shoulderWidth' / shoulderWidth baseMeasurements;
            torsoScale = torsoLength' / torsoLength baseMeasurements;
            shoulderVector = normalize (subVectors (rightShoulder lm) (leftShoulder lm));
            upVector = normalize (subVectors shoulderMidpoint hipMidpoint);
            forwardVector = normalize (crossVectors shoulderVector upVector)
        in \<lparr> position = multiplyScalar (addVectors shoulderMidpoint hipMidpoint) 0.5,
             rotation = setFromBasis ops shoulderVector upVector forwardVector,
             scale = Vector3 (shoulderScale * sizeAdjustment)
                             (torsoScale * sizeAdjustment)
                             ((shoulderScale + torsoScale) / 2 * sizeAdjustment) \<rparr>
      else if modelType = ''jacket'' \<or> modelType = ''hoodie'' then
        let jacketShoulderWidth = distanceTo (leftShoulder lm) (rightShoulder lm);
            jacketTorsoLength = distanceTo shoulderMidpoint hipMidpoint;
            jacketShoulderScale = (jacketShoulderWidth / shoulderWidth baseMeasurements) * 1.1;
            jacketTorsoScale = (jacketTorsoLength / torsoLength baseMeasurements) * 1.05;
            jacketShoulderVector = normalize (subVectors (rightShoulder lm) (leftShoulder lm));
            jacketUpVector = normalize (subVectors shoulderMidpoint hipMidpoint);
            jacketForwardVector = normalize (crossVectors jacketShoulderVector jacketUpVector)
        in \<lparr> position = multiplyScalar (addVectors shoulderMidpoint hipMidpoint) 0.5,
             rotation = setFromBasis ops jacketShoulderVector jacketUpVector jacketForwardVector,
             scale = Vector3 (jacketShoulderScale * sizeAdjustment)
                             (jacketTorsoScale * sizeAdjustment)
                             ((jacketShoulderScale + jacketTorsoScale) / 2 * sizeAdjustment) \<rparr>
      else if modelType = ''pants'' then
        let hipWidth' = distanceTo (leftHip lm) (rightHip lm);
            legLength' = (distanceTo (leftHip lm) (leftAnkle lm)
                        + distanceTo (rightHip lm) (rightAnkle lm)) / 2;
            hipScale = hipWidth' / hipWidth baseMeasurements;
            legScale = legLength' / legLength baseMeasurements;
            hipVector = normalize (subVectors (rightHip lm) (leftHip lm));
            legVector = normalize (subVectors hipMidpoint
                          (multiplyScalar (addVectors (leftAnkle lm) (rightAnkle lm)) 0.5));
            pantsForwardVector = normalize (crossVectors hipVector legVector)
        in \<lparr> position = hipMidpoint,
             rotation = setFromBasis ops hipVector (negate legVector) pantsForwardVector,
             scale = Vector3 (hipScale * sizeAdjustment)
                             (legScale * sizeAdjustment)
                             (hipScale * sizeAdjustment) \<rparr>
      else
        \<lparr> position = shoulderMidpoint,
          rotation = newQuaternion,
          scale = multiplyScalar (Vector3 1 1 1) sizeAdjustment \<rparr>)"

record Options =
  sizeAdjustment :: "real option"
  modelType :: "string option"

record FitResult = Transform +
  resultFitQuality :: FitQuality

text \<open>
  The defaults of the destructured \<open>options\<close> argument:
  \<open>sizeAdjustment = 1.0\<close> and \<open>modelType = 'tshirt'\<close>.
\<close>

definition optSizeAdjustment :: "Options \<Rightarrow> real" where
  "optSizeAdjustment options = (case sizeAdjustment options of None \<Rightarrow> 1 | Some s \<Rightarrow> s)"

definition optModelType :: "Options \<Rightarrow> string" where
  "optModelType options = (case modelType options of None \<Rightarrow> ''tshirt'' | Some t \<Rightarrow> t)"

text \<open>
  \<open>updateModelFit\<close> returns \<open>undefined\<close> (here \<open>None\<close>) when its guard fails, and the
  object with the applied transform otherwise. It changes the model in place, so the
  model is returned with the result and the new state. \<open>previousTransforms.get\<close> gives
  \<open>undefined\<close> for a key that is not in the map, and writing a field of it would throw.
\<close>

definition updateModelFit ::
    "QuaternionOps \<Rightarrow> Object3D option \<Rightarrow> keypoint list option \<Rightarrow> BodyMeasurements \<Rightarrow> Options
       \<Rightarrow> ClothingFit \<Rightarrow> (FitResult option \<times> Object3D option \<times> ClothingFit) result" where
  "updateModelFit ops model keypoints baseMeasurements options this =
     (case model of
        None \<Rightarrow> Returns (None, model, this)
      | Some m \<Rightarrow>
     (case keypoints of
        None \<Rightarrow> Returns (None, model, this)
      | Some kps \<Rightarrow>
          if length kps < 33 then Returns (None, model, this)
          else
            let sizeAdjustment' = optSizeAdjustment options;
                modelType' = optModelType options
            in
            andThen (getKeyLandmarks kps) (\<lambda>lm.
            andThen (calculateBodyMeasurements keypoints this) (\<lambda>this1.
              let target = targetTransform ops modelType' sizeAdjustment' baseMeasurements lm;
                  modelId = uuid m;
                  transforms =
                    (if previousTransforms this1 modelId = None
                     then (previousTransforms this1)(modelId \<mapsto> target)
                     else previousTransforms this1)
              in
              (case transforms modelId of
                 None \<Rightarrow> Throws TypeError
               | Some previousTransform \<Rightarrow>
                   let position' = lerp (modelPosition m) (position target) (1 - smoothingFactor this1);
                       previousTransform1 = previousTransform\<lparr> position := position' \<rparr>;
                       quaternion' = slerp ops (modelQuaternion m) (rotation target)
                                       (1 - smoothingFactor this1);
                       previousTransform2 = previousTransform1\<lparr> rotation := quaternion' \<rparr>;
                       scale' = lerp (modelScale m) (scale target) (1 - smoothingFactor this1);
                       previousTransform3 = previousTransform2\<lparr> scale := scale' \<rparr>;
                       m' = m\<lparr> modelPosition := position', modelQuaternion := quaternion',
                               modelScale := scale' \<rparr>;
                       this2 = this1\<lparr> previousTransforms := transforms(modelId \<mapsto> previousTransform3) \<rparr>;
                       this3 = calculateFitQuality modelType' keypoints (Some m') this2
                   in Returns
                        (Some \<lparr> position = position', rotation = quaternion', scale = scale',
                                resultFitQuality = fitQuality this3 \<rparr>,
                         Some m', this3))))))"


section \<open>Calibration polling\<close>

text \<open>
  \<open>PoseDetection.extractKeypoints3D\<close>: the landmarks of the detector's result, with the
  visibility taken from \<open>poseLandmarks\<close> at the same index (\<open>|| 0\<close> when it is missing).
  Reading \<open>results.poseLandmarks[i].visibility\<close> past the end of \<open>poseLandmarks\<close> throws.
\<close>

record landmark =
  lmx :: real
  lmy :: real
  lmz :: real
  lmVisibility :: "real option"

record PoseResults =
  poseLandmarks :: "landmark list option"
  poseWorldLandmarks :: "landmark list option"

fun mapIndexed :: "(landmark \<Rightarrow> nat \<Rightarrow> keypoint result) \<Rightarrow> landmark list \<Rightarrow> nat \<Rightarrow> keypoint list result" where
  "mapIndexed f [] i = Returns []"
| "mapIndexed f (x # xs) i =
     andThen (f x i) (\<lambda>k. andThen (mapIndexed f xs (Suc i)) (\<lambda>ks. Returns (k # ks)))"

definition extractKeypoints3D :: "PoseResults \<Rightarrow> keypoint list result" where
  "extractKeypoints3D results =
     (case poseLandmarks results of
        None \<Rightarrow> Returns []
      | Some pl \<Rightarrow>
     (case poseWorldLandmarks results of
        None \<Rightarrow> Returns []
      | Some pwl \<Rightarrow>
          mapIndexed (\<lambda>landmark i.
              if i < length pl
              then Returns (Keypoint (Some (lmx landmark)) (lmy landmark) (lmz landmark)
                     (case lmVisibility (pl ! i) of None \<Rightarrow> 0 | Some v \<Rightarrow> v))
              else Throws TypeError)
            pwl 0))"

text \<open>
  \<open>VirtualTryOn.calibrate\<close> (bundle.js): the state it touches, the callback of its
  \<open>setInterval\<close> (every 500 ms) and the callback of its \<open>setTimeout\<close> (after 10 s). The
  ClothingFit singleton and the base measurements of the ModelLoader singleton are part
  of the state; time itself is not modelled, only the order of the callbacks.
\<close>

record VirtualTryOn =
  isRunning :: bool
  tryOnCalibrated :: bool
  calibrationGuideHidden :: bool
  status :: "string \<times> string"
  checkIntervalActive :: bool
  clothingFit :: ClothingFit
  loaderBaseMeasurements :: BodyMeasurements
  hasCurrentModel :: bool
  consoleLog :: "string list"

definition calibrationCheck :: "VirtualTryOn \<Rightarrow> VirtualTryOn result" where
  "calibrationCheck this =
     andThen (extractKeypoints3D \<lparr> poseLandmarks = Some [], poseWorldLandmarks = Some [] \<rparr>)
       (\<lambda>keypoints.
     andThen (calibrate (Some keypoints) (clothingFit this)) (\<lambda>r.
       let success = fst r;
           this1 = this\<lparr> clothingFit := snd r \<rparr>
       in if success then
            Returns (this1
              \<lparr> checkIntervalActive := False,
                tryOnCalibrated := True,
                calibrationGuideHidden := True,
                status := (''ready'', ''Calibrated''),
                loaderBaseMeasurements :=
                  (if hasCurrentModel this1 then getMeasurements (clothingFit this1)
                   else loaderBaseMeasurements this1),
                consoleLog := consoleLog this1 @ [''Calibration successful''] \<rparr>)
          else Returns this1))"

definition calibrationTimeout :: "VirtualTryOn \<Rightarrow> VirtualTryOn" where
  "calibrationTimeout this =
     (let this1 = this\<lparr> checkIntervalActive := False \<rparr>
      in if \<not> tryOnCalibrated this1 then
           this1\<lparr> calibrationGuideHidden := True,
                  status := (''ready'', ''Ready''),
                  consoleLog := consoleLog this1 @ [''Calibration timed out''] \<rparr>
         else this1)"

text \<open>\<open>n\<close> firings of the interval callback, while the interval has not been cleared.\<close>

fun calibrationPolls :: "nat \<Rightarrow> VirtualTryOn \<Rightarrow> VirtualTryOn result" where
  "calibrationPolls 0 this = Returns this"
| "calibrationPolls (Suc n) this =
     (if checkIntervalActive this
      then andThen (calibrationCheck this) (calibrationPolls n)
      else Returns this)"

text \<open>
  \<open>VirtualTryOn.calibrate\<close> itself: nothing happens unless the try-on is running;
  otherwise the guide is shown, the status is set, both timers are started, the interval
  fires \<open>polls\<close> times and then the timeout fires. The number of firings before the
  timeout is a parameter, since time is not modelled.
\<close>

definition startCalibration :: "VirtualTryOn \<Rightarrow> VirtualTryOn" where
  "startCalibration this =
     this\<lparr> calibrationGuideHidden := False,
           status := (''initializing'', ''Calibrating...''),
           checkIntervalActive := True \<rparr>"

definition tryOnCalibrate :: "nat \<Rightarrow> VirtualTryOn \<Rightarrow> VirtualTryOn result" where
  "tryOnCalibrate polls this =
     (if \<not> isRunning this then Returns this
      else andThen (calibrationPolls polls (startCalibration this)) (\<lambda>this1.
        Returns (calibrationTimeout this1)))"


section \<open>Vocabulary of the statements\<close>

text \<open>
  The vector that \<open>keypointToVector3\<close> yields for an entry, and the vector of the
  landmark at an index of the array.
\<close>

fun vec3Of :: "keypoint \<Rightarrow> Vector3" where
  "vec3Of (Keypoint (Some x) y z v) = Vector3 x (- y) (- z)"
| "vec3Of k = Vector3 0 0 0"

definition landmarkAt :: "keypoint list \<Rightarrow> nat \<Rightarrow> Vector3" where
  "landmarkAt kps i = vec3Of (entryAt kps i)"

text \<open>
  The two arm vectors (shoulder to wrist) and the torso axis (hip midpoint to shoulder
  midpoint) of a frame, before they are normalised.
\<close>

definition leftArm :: "keypoint list \<Rightarrow> Vector3" where
  "leftArm kps = subVectors (landmarkAt kps 15) (landmarkAt kps 11)"

definition rightArm :: "keypoint list \<Rightarrow> Vector3" where
  "rightArm kps = subVectors (landmarkAt kps 16) (landmarkAt kps 12)"

definition torsoAxis :: "keypoint list \<Rightarrow> Vector3" where
  "torsoAxis kps = subVectors
     (multiplyScalar (addVectors (landmarkAt kps 11) (landmarkAt kps 12)) 0.5)
     (multiplyScalar (addVectors (landmarkAt kps 23) (landmarkAt kps 24)) 0.5)"

text \<open>
  An invalid entry replaced by an object at the origin; a valid entry is kept.
\<close>

fun asZeroPosition :: "keypoint \<Rightarrow> keypoint" where
  "asZeroPosition (Keypoint (Some x) y z v) = Keypoint (Some x) y z v"
| "asZeroPosition k = Keypoint (Some 0) 0 0 0"

text \<open>
  The target transform of a frame (before smoothing), and the transform part of what
  \<open>updateModelFit\<close> returns (\<open>None\<close> when it returns \<open>undefined\<close> or throws).
\<close>

definition targetOf :: "QuaternionOps \<Rightarrow> keypoint list \<Rightarrow> BodyMeasurements \<Rightarrow> Options \<Rightarrow> Transform result" where
  "targetOf ops kps base options =
     andThen (getKeyLandmarks kps) (\<lambda>lm.
       Returns (targetTransform ops (optModelType options) (optSizeAdjustment options) base lm))"

definition appliedTransform ::
    "(FitResult option \<times> Object3D option \<times> ClothingFit) result \<Rightarrow> Transform option" where
  "appliedTransform r =
     (case r of
        Throws e \<Rightarrow> None
      | Returns out \<Rightarrow>
          (case fst out of
             None \<Rightarrow> None
           | Some res \<Rightarrow> Some \<lparr> position = position res, rotation = rotation res, scale = scale res \<rparr>))"


section \<open>Example inputs\<close>

text \<open>
  A frame in T-pose: shoulders at \<open>x = \<plusminus>1\<close>, elbows at \<open>\<plusminus>2\<close>, wrists at
  \<open>\<plusminus>3\<close>, hips three units below the shoulders, knees and ankles below the hips.
  The other entries of the array are \<open>undefined\<close>. The same frame with the arms hanging
  along the torso, and with the forearms bent down at the elbow.
\<close>

definition tposeKeypoints :: "keypoint list" where
  "tposeKeypoints = (replicate 33 Undefined)
     [11 := Keypoint (Some 1) 0 0 1, 12 := Keypoint (Some (-1)) 0 0 1,
      13 := Keypoint (Some 2) 0 0 1, 14 := Keypoint (Some (-2)) 0 0 1,
      15 := Keypoint (Some 3) 0 0 1, 16 := Keypoint (Some (-3)) 0 0 1,
      23 := Keypoint (Some 1) 3 0 1, 24 := Keypoint (Some (-1)) 3 0 1,
      25 := Keypoint (Some 1) 4 0 1, 26 := Keypoint (Some (-1)) 4 0 1,
      27 := Keypoint (Some 1) 5 0 1, 28 := Keypoint (Some (-1)) 5 0 1]"

definition armsDownKeypoints :: "keypoint list" where
  "armsDownKeypoints = tposeKeypoints
     [13 := Keypoint (Some 1) 1 0 1, 14 := Keypoint (Some (-1)) 1 0 1,
      15 := Keypoint (Some 1) 2 0 1, 16 := Keypoint (Some (-1)) 2 0 1]"

definition bentArmKeypoints :: "keypoint list" where
  "bentArmKeypoints = tposeKeypoints
     [15 := Keypoint (Some 2) 1 0 1, 16 := Keypoint (Some (-2)) 1 0 1]"

text \<open>
  The measurements of the T-pose frame, a freshly loaded model, the empty options, and
  the quaternion functions of three.js as modelled above.
\<close>

definition exampleMeasured :: BodyMeasurements where
  "exampleMeasured =
     \<lparr> shoulderWidth = 2, torsoLength = 3, armLength = 2, legLength = 2, hipWidth = 2 \<rparr>"

definition exampleModel :: Object3D where
  "exampleModel =
     \<lparr> uuid = ''garment-1'', modelPosition = Vector3 0 0 0, modelQuaternion = newQuaternion,
       modelScale = Vector3 1 1 1 \<rparr>"

definition defaultOptions :: Options where
  "defaultOptions = \<lparr> sizeAdjustment = None, modelType = None \<rparr>"

definition exampleQuaternionOps :: QuaternionOps where
  "exampleQuaternionOps =
     \<lparr> setFromBasis = setFromRotationMatrix, slerp = quaternionSlerp \<rparr>"


section \<open>Basic facts\<close>

lemma andThen_Returns: "andThen (Returns v) f = f v"
  by (simp add: andThen_def)

lemma keypointToVector3_eq: "keypointToVector3 k = Returns (vec3Of k)"
  by (cases k rule: vec3Of.cases) (simp_all add: keypointToVector3_def andThen_def)

lemma getKeyLandmarks_eq:
  "getKeyLandmarks kps = Returns
     \<lparr> leftShoulder = landmarkAt kps 11, rightShoulder = landmarkAt kps 12,
       leftHip = landmarkAt kps 23, rightHip = landmarkAt kps 24,
       leftElbow = landmarkAt kps 13, rightElbow = landmarkAt kps 14,
       leftWrist = landmarkAt kps 15, rightWrist = landmarkAt kps 16,
       leftKnee = landmarkAt kps 25, rightKnee = landmarkAt kps 26,
       leftAnkle = landmarkAt kps 27, rightAnkle = landmarkAt kps 28 \<rparr>"
  by (simp add: getKeyLandmarks_def keypointToVector3_eq andThen_Returns landmarkAt_def)

lemma distanceTo_nonneg: "0 \<le> distanceTo a b"
  by (simp add: distanceTo_def distanceToSquared_def Let_def)

lemma dot_normalize:
  "dot (normalize a) (normalize b) =
     dot a b / ((if vlength a = 0 then 1 else vlength a) * (if vlength b = 0 then 1 else vlength b))"
  by (simp add: normalize_def divideScalar_def multiplyScalar_def dot_def field_simps)

lemma vlength_sq: "vlength v * vlength v = dot v v"
  by (simp add: vlength_def dot_def add_nonneg_nonneg)

lemma vlength_nonneg: "0 \<le> vlength v"
  by (simp add: vlength_def add_nonneg_nonneg)

lemma vlength_zero_iff: "vlength v = 0 \<longleftrightarrow> v = Vector3 0 0 0"
proof (cases v)
  case (Vector3 x y z)
  have "x * x + y * y + z * z = 0 \<longleftrightarrow> x = 0 \<and> y = 0 \<and> z = 0"
    by (metis (no_types, opaque_lifting) add_nonneg_eq_0_iff mult_eq_0_iff zero_le_square add_nonneg_nonneg)
  with Vector3 show ?thesis by (simp add: vlength_def)
qed

lemma vlength_multiplyScalar: "vlength (multiplyScalar t c) = \<bar>c\<bar> * vlength t"
proof -
  have "vx t * c * (vx t * c) + vy t * c * (vy t * c) + vz t * c * (vz t * c)
          = (c * c) * (vx t * vx t + vy t * vy t + vz t * vz t)"
    by (simp add: algebra_simps)
  then show ?thesis
    by (simp add: vlength_def multiplyScalar_def real_sqrt_mult)
qed

lemma dot_multiplyScalar: "dot (multiplyScalar t c) t = c * dot t t"
  by (simp add: dot_def multiplyScalar_def algebra_simps)

lemma parallel_dot:
  assumes "t \<noteq> Vector3 0 0 0" "c \<noteq> 0"
  shows "\<bar>dot (normalize (multiplyScalar t c)) (normalize t)\<bar> = 1"
proof -
  have nz: "vlength t \<noteq> 0" using assms(1) by (simp add: vlength_zero_iff)
  have pos: "0 < vlength t" using nz vlength_nonneg [of t] by simp
  have "dot (normalize (multiplyScalar t c)) (normalize t)
          = c * dot t t / (\<bar>c\<bar> * vlength t * vlength t)"
    using nz assms(2) by (simp add: dot_normalize vlength_multiplyScalar dot_multiplyScalar)
  also have "\<dots> = c * (vlength t * vlength t) / (\<bar>c\<bar> * (vlength t * vlength t))"
    by (simp add: vlength_sq mult.assoc)
  also have "\<dots> = c / \<bar>c\<bar>" using nz by simp
  finally show ?thesis using assms(2) by (simp add: abs_if)
qed

lemma Transform_overwrite:
  "(t::Transform)\<lparr> position := a, rotation := b, scale := c \<rparr>
     = \<lparr> position = a, rotation = b, scale = c \<rparr>"
  by (cases t) simp

lemma sqrt_9: "sqrt 9 = 3"
  using real_sqrt_abs [of 3] by simp

lemma length_tpose: "length tposeKeypoints = 33"
  by (simp add: tposeKeypoints_def)

lemma length_armsDown: "length armsDownKeypoints = 33"
  by (simp add: armsDownKeypoints_def length_tpose)

lemma tpose_landmarks:
  "landmarkAt tposeKeypoints 11 = Vector3 1 0 0" "landmarkAt tposeKeypoints 12 = Vector3 (-1) 0 0"
  "landmarkAt tposeKeypoints 13 = Vector3 2 0 0" "landmarkAt tposeKeypoints 14 = Vector3 (-2) 0 0"
  "landmarkAt tposeKeypoints 15 = Vector3 3 0 0" "landmarkAt tposeKeypoints 16 = Vector3 (-3) 0 0"
  "landmarkAt tposeKeypoints 23 = Vector3 1 (-3) 0" "landmarkAt tposeKeypoints 24 = Vector3 (-1) (-3) 0"
  "landmarkAt tposeKeypoints 25 = Vector3 1 (-4) 0" "landmarkAt tposeKeypoints 26 = Vector3 (-1) (-4) 0"
  "landmarkAt tposeKeypoints 27 = Vector3 1 (-5) 0" "landmarkAt tposeKeypoints 28 = Vector3 (-1) (-5) 0"
  by (simp_all add: landmarkAt_def entryAt_def tposeKeypoints_def)

lemma armsDown_landmarks:
  "landmarkAt armsDownKeypoints 11 = Vector3 1 0 0" "landmarkAt armsDownKeypoints 12 = Vector3 (-1) 0 0"
  "landmarkAt armsDownKeypoints 15 = Vector3 1 (-2) 0" "landmarkAt armsDownKeypoints 16 = Vector3 (-1) (-2) 0"
  "landmarkAt armsDownKeypoints 23 = Vector3 1 (-3) 0" "landmarkAt armsDownKeypoints 24 = Vector3 (-1) (-3) 0"
  by (simp_all add: landmarkAt_def entryAt_def armsDownKeypoints_def tposeKeypoints_def)

lemma bentArm_landmarks:
  "landmarkAt bentArmKeypoints 11 = Vector3 1 0 0" "landmarkAt bentArmKeypoints 12 = Vector3 (-1) 0 0"
  "landmarkAt bentArmKeypoints 13 = Vector3 2 0 0" "landmarkAt bentArmKeypoints 14 = Vector3 (-2) 0 0"
  "landmarkAt bentArmKeypoints 15 = Vector3 2 (-1) 0" "landmarkAt bentArmKeypoints 16 = Vector3 (-2) (-1) 0"
  by (simp_all add: landmarkAt_def entryAt_def bentArmKeypoints_def tposeKeypoints_def)

lemma tpose_keyLandmarks:
  "getKeyLandmarks tposeKeypoints = Returns
     \<lparr> leftShoulder = Vector3 1 0 0, rightShoulder = Vector3 (-1) 0 0,
       leftHip = Vector3 1 (-3) 0, rightHip = Vector3 (-1) (-3) 0,
       leftElbow = Vector3 2 0 0, rightElbow = Vector3 (-2) 0 0,
       leftWrist = Vector3 3 0 0, rightWrist = Vector3 (-3) 0 0,
       leftKnee = Vector3 1 (-4) 0, rightKnee = Vector3 (-1) (-4) 0,
       leftAnkle = Vector3 1 (-5) 0, rightAnkle = Vector3 (-1) (-5) 0 \<rparr>"
  by (simp add: getKeyLandmarks_eq tpose_landmarks)


section \<open>Measurement extraction\<close>

lemma calculateBodyMeasurements_eq:
  assumes "33 \<le> length kps"
  shows "calculateBodyMeasurements (Some kps) this = Returns (this\<lparr> userMeasurements :=
     (userMeasurements this)
       \<lparr> shoulderWidth := distanceTo (landmarkAt kps 11) (landmarkAt kps 12),
         hipWidth := distanceTo (landmarkAt kps 23) (landmarkAt kps 24),
         torsoLength := distanceTo
           (multiplyScalar (addVectors (landmarkAt kps 11) (landmarkAt kps 12)) 0.5)
           (multiplyScalar (addVectors (landmarkAt kps 23) (landmarkAt kps 24)) 0.5),
         armLength := ((distanceTo (landmarkAt kps 11) (landmarkAt kps 13)
                        + distanceTo (landmarkAt kps 13) (landmarkAt kps 15))
                     + (distanceTo (landmarkAt kps 12) (landmarkAt kps 14)
                        + distanceTo (landmarkAt kps 14) (landmarkAt kps 16))) / 2,
         legLength := ((distanceTo (landmarkAt kps 23) (landmarkAt kps 25)
                        + distanceTo (landmarkAt kps 25) (landmarkAt kps 27))
                     + (distanceTo (landmarkAt kps 24) (landmarkAt kps 26)
                        + distanceTo (landmarkAt kps 26) (landmarkAt kps 28))) / 2 \<rparr> \<rparr>)"
  using assms
  by (simp add: calculateBodyMeasurements_def getKeyLandmarks_eq andThen_Returns Let_def)

lemma calculateBodyMeasurements_guard:
  "(case kps of None \<Rightarrow> True | Some k \<Rightarrow> length k < 33) \<Longrightarrow>
     calculateBodyMeasurements kps this = Returns this"
  by (simp add: calculateBodyMeasurements_def split: option.splits)

lemma calculateBodyMeasurements_returns:
  "\<exists>s. calculateBodyMeasurements kps this = Returns s"
proof (cases kps)
  case None
  then show ?thesis by (simp add: calculateBodyMeasurements_def)
next
  case (Some k)
  then show ?thesis
    using calculateBodyMeasurements_eq [of k this] calculateBodyMeasurements_guard [of kps this]
    by (cases "length k < 33") auto
qed

lemma calculateBodyMeasurements_keeps:
  assumes "calculateBodyMeasurements kps this = Returns this1"
  shows "smoothingFactor this1 = smoothingFactor this"
    and "previousTransforms this1 = previousTransforms this"
    and "isCalibrated this1 = isCalibrated this"
    and "fitQuality this1 = fitQuality this"
proof -
  have "this1 = this \<or> (\<exists>um. this1 = this\<lparr> userMeasurements := um \<rparr>)"
  proof (cases kps)
    case None
    with assms show ?thesis by (simp add: calculateBodyMeasurements_def)
  next
    case (Some k)
    show ?thesis
    proof (cases "length k < 33")
      case True
      with Some assms show ?thesis by (simp add: calculateBodyMeasurements_def)
    next
      case False
      then have "33 \<le> length k" by simp
      from calculateBodyMeasurements_eq [OF this, of this] Some assms show ?thesis by auto
    qed
  qed
  then show "smoothingFactor this1 = smoothingFactor this"
    and "previousTransforms this1 = previousTransforms this"
    and "isCalibrated this1 = isCalibrated this"
    and "fitQuality this1 = fitQuality this"
    by auto
qed

lemma measurements_independent:
  assumes "33 \<le> length k"
    "calculateBodyMeasurements (Some k) this = Returns this1"
    "calculateBodyMeasurements (Some k) other = Returns other1"
  shows "this1 = this\<lparr> userMeasurements := userMeasurements other1 \<rparr>"
  using assms by (auto simp: calculateBodyMeasurements_eq)

lemma tpose_measurements:
  "calculateBodyMeasurements (Some tposeKeypoints) newClothingFit =
     Returns (newClothingFit\<lparr> userMeasurements := exampleMeasured \<rparr>)"
  by (simp add: calculateBodyMeasurements_eq length_tpose tpose_landmarks exampleMeasured_def
        newClothingFit_def distanceTo_def distanceToSquared_def addVectors_def multiplyScalar_def
        sqrt_9)

text \<open>
  C5: for every input of at least 33 landmarks, extraction stores the five measurements
  as distances, none of them negative: the shoulder width and the hip width between the
  two shoulders and the two hips, the torso length between the shoulder midpoint and the
  hip midpoint, and the arm and leg lengths as the average over both sides of the sum of
  the two segments (shoulder to elbow plus elbow to wrist, hip to knee plus knee to
  ankle).
\<close>

theorem extract_measurements:
  assumes "33 \<le> length kps"
  shows "\<exists>this'. calculateBodyMeasurements (Some kps) this = Returns this'
     \<and> shoulderWidth (getMeasurements this') = distanceTo (landmarkAt kps 11) (landmarkAt kps 12)
     \<and> hipWidth (getMeasurements this') = distanceTo (landmarkAt kps 23) (landmarkAt kps 24)
     \<and> torsoLength (getMeasurements this') = distanceTo
           (multiplyScalar (addVectors (landmarkAt kps 11) (landmarkAt kps 12)) 0.5)
           (multiplyScalar (addVectors (landmarkAt kps 23) (landmarkAt kps 24)) 0.5)
     \<and> armLength (getMeasurements this') =
           ((distanceTo (landmarkAt kps 11) (landmarkAt kps 13)
              + distanceTo (landmarkAt kps 13) (landmarkAt kps 15))
          + (distanceTo (landmarkAt kps 12) (landmarkAt kps 14)
              + distanceTo (landmarkAt kps 14) (landmarkAt kps 16))) / 2
     \<and> legLength (getMeasurements this') =
           ((distanceTo (landmarkAt kps 23) (landmarkAt kps 25)
              + distanceTo (landmarkAt kps 25) (landmarkAt kps 27))
          + (distanceTo (landmarkAt kps 24) (landmarkAt kps 26)
              + distanceTo (landmarkAt kps 26) (landmarkAt kps 28))) / 2
     \<and> 0 \<le> shoulderWidth (getMeasurements this') \<and> 0 \<le> hipWidth (getMeasurements this')
     \<and> 0 \<le> torsoLength (getMeasurements this') \<and> 0 \<le> armLength (getMeasurements this')
     \<and> 0 \<le> legLength (getMeasurements this')"
  using assms
  by (simp add: calculateBodyMeasurements_eq getMeasurements_def distanceTo_nonneg add_nonneg_nonneg)

text \<open>
  With the forearms bent down at the elbow the arm length is 2 (two segments of length
  1), while the wrist is only \<open>sqrt 2\<close> away from the shoulder.
\<close>

theorem extract_measurements_witness:
  "\<exists>this'. calculateBodyMeasurements (Some bentArmKeypoints) newClothingFit = Returns this'
     \<and> armLength (getMeasurements this') = 2
     \<and> shoulderWidth (getMeasurements this') = 2
     \<and> distanceTo (landmarkAt bentArmKeypoints 11) (landmarkAt bentArmKeypoints 15) < 2"
proof -
  have len: "33 \<le> length bentArmKeypoints"
    by (simp add: bentArmKeypoints_def length_tpose)
  have direct: "distanceTo (landmarkAt bentArmKeypoints 11) (landmarkAt bentArmKeypoints 15) < 2"
  proof -
    have "sqrt 2 < 2" using real_sqrt_less_mono [of 2 4] by simp
    then show ?thesis
      by (simp add: bentArm_landmarks distanceTo_def distanceToSquared_def)
  qed
  from extract_measurements [OF len, of newClothingFit]
  obtain this' where "calculateBodyMeasurements (Some bentArmKeypoints) newClothingFit = Returns this'"
    "armLength (getMeasurements this') =
           ((distanceTo (landmarkAt bentArmKeypoints 11) (landmarkAt bentArmKeypoints 13)
              + distanceTo (landmarkAt bentArmKeypoints 13) (landmarkAt bentArmKeypoints 15))
          + (distanceTo (landmarkAt bentArmKeypoints 12) (landmarkAt bentArmKeypoints 14)
              + distanceTo (landmarkAt bentArmKeypoints 14) (landmarkAt bentArmKeypoints 16))) / 2"
    "shoulderWidth (getMeasurements this') =
        distanceTo (landmarkAt bentArmKeypoints 11) (landmarkAt bentArmKeypoints 12)"
    by blast
  then show ?thesis
    using direct
    by (simp add: bentArm_landmarks distanceTo_def distanceToSquared_def)
qed

text \<open>
  C8, as the code has it: for a landmark sequence of fewer than 33 entries, or none at
  all, extraction returns without raising and leaves the whole state unchanged, so the
  measurements observable after the call are exactly the measurements observable before
  it. On a fresh instance these are the zeroed default.
\<close>

theorem extract_short_input:
  assumes "kps = None \<or> (\<exists>k. kps = Some k \<and> length k < 33)"
  shows "calculateBodyMeasurements kps this = Returns this
     \<and> (\<exists>this'. calculateBodyMeasurements kps this = Returns this'
           \<and> getMeasurements this' = getMeasurements this)
     \<and> calculateBodyMeasurements kps newClothingFit = Returns newClothingFit
     \<and> getMeasurements newClothingFit =
         \<lparr> shoulderWidth = 0, torsoLength = 0, armLength = 0, legLength = 0, hipWidth = 0 \<rparr>"
  using assms
  by (auto simp: calculateBodyMeasurements_def getMeasurements_def newClothingFit_def)

theorem extract_short_input_witness:
  "calculateBodyMeasurements (Some []) (newClothingFit\<lparr> userMeasurements := exampleMeasured \<rparr>)
     = Returns (newClothingFit\<lparr> userMeasurements := exampleMeasured \<rparr>)
   \<and> calculateBodyMeasurements None newClothingFit = Returns newClothingFit"
  using extract_short_input [of "Some []" "newClothingFit\<lparr> userMeasurements := exampleMeasured \<rparr>"]
    extract_short_input [of None newClothingFit]
  by simp

text \<open>
  The claim as stated fails: after the T-pose frame has been measured, a call with an
  empty array leaves those measurements in place, and they are not zero.
\<close>

theorem extract_short_input_counterexample:
  "calculateBodyMeasurements (Some tposeKeypoints) newClothingFit
     = Returns (newClothingFit\<lparr> userMeasurements := exampleMeasured \<rparr>)
   \<and> calculateBodyMeasurements (Some []) (newClothingFit\<lparr> userMeasurements := exampleMeasured \<rparr>)
     = Returns (newClothingFit\<lparr> userMeasurements := exampleMeasured \<rparr>)
   \<and> getMeasurements (newClothingFit\<lparr> userMeasurements := exampleMeasured \<rparr>)
     \<noteq> \<lparr> shoulderWidth = 0, torsoLength = 0, armLength = 0, legLength = 0, hipWidth = 0 \<rparr>"
  by (simp add: tpose_measurements calculateBodyMeasurements_guard getMeasurements_def
        exampleMeasured_def)


section \<open>The T-pose check and calibration\<close>

lemma checkTpose_eq:
  assumes "33 \<le> length kps"
  shows "checkTpose (Some kps) = Returns
     (\<bar>dot (normalize (leftArm kps)) (normalize (torsoAxis kps))\<bar> < 0.3 \<and>
      \<bar>dot (normalize (rightArm kps)) (normalize (torsoAxis kps))\<bar> < 0.3)"
  using assms
  by (simp add: checkTpose_def keypointToVector3_eq andThen_Returns Let_def
        leftArm_def rightArm_def torsoAxis_def landmarkAt_def)

lemma checkTpose_short:
  "length kps < 33 \<Longrightarrow> checkTpose (Some kps) = Returns False"
  by (simp add: checkTpose_def)

lemma checkTpose_returns: "\<exists>b. checkTpose kps = Returns b"
proof (cases kps)
  case None
  then show ?thesis by (auto simp: checkTpose_def)
next
  case (Some k)
  then show ?thesis
    using checkTpose_eq [of k] checkTpose_short [of k] by (cases "length k < 33") auto
qed

lemma calibrate_fail:
  assumes "kps = None \<or> (\<exists>k. kps = Some k \<and> length k < 33) \<or> checkTpose kps = Returns False"
  shows "calibrate kps this = Returns (False, this)"
  using assms by (auto simp: calibrate_def andThen_Returns split: option.splits)

lemma calibrate_success:
  assumes "33 \<le> length k" "checkTpose (Some k) = Returns True"
    "calculateBodyMeasurements (Some k) this = Returns this1"
  shows "calibrate (Some k) this = Returns (True, this1\<lparr> isCalibrated := True \<rparr>)"
  using assms by (simp add: calibrate_def andThen_Returns)

lemma tpose_perp:
  "dot (leftArm tposeKeypoints) (torsoAxis tposeKeypoints) = 0"
  "dot (rightArm tposeKeypoints) (torsoAxis tposeKeypoints) = 0"
  by (simp_all add: leftArm_def rightArm_def torsoAxis_def tpose_landmarks dot_def subVectors_def
        addVectors_def multiplyScalar_def)

lemma tpose_check: "checkTpose (Some tposeKeypoints) = Returns True"
  by (simp add: checkTpose_eq length_tpose dot_normalize tpose_perp)

lemma armsDown_check: "checkTpose (Some armsDownKeypoints) = Returns False"
proof -
  have t: "torsoAxis armsDownKeypoints = Vector3 0 3 0"
    by (simp add: torsoAxis_def armsDown_landmarks subVectors_def addVectors_def multiplyScalar_def)
  have l: "leftArm armsDownKeypoints = multiplyScalar (Vector3 0 3 0) (- 2 / 3)"
    by (simp add: leftArm_def armsDown_landmarks subVectors_def multiplyScalar_def)
  have "\<bar>dot (normalize (leftArm armsDownKeypoints)) (normalize (torsoAxis armsDownKeypoints))\<bar> = 1"
    unfolding t l by (rule parallel_dot) simp_all
  then show ?thesis by (simp add: checkTpose_eq length_armsDown)
qed

text \<open>
  C2: for every input of at least 33 landmarks the T-pose check succeeds exactly when,
  for both arms, the absolute dot product of the normalised shoulder-to-wrist vector with
  the normalised torso vector is strictly below 0.3. When both arm vectors are
  perpendicular to the torso axis, \<open>calibrate\<close> returns true; when both are non-zero
  multiples of a non-zero torso axis, \<open>calibrate\<close> returns false.
\<close>

theorem tpose_gate:
  assumes "33 \<le> length kps"
  shows "checkTpose (Some kps) = Returns
           (\<bar>dot (normalize (leftArm kps)) (normalize (torsoAxis kps))\<bar> < 0.3 \<and>
            \<bar>dot (normalize (rightArm kps)) (normalize (torsoAxis kps))\<bar> < 0.3)
     \<and> (dot (leftArm kps) (torsoAxis kps) = 0 \<and> dot (rightArm kps) (torsoAxis kps) = 0
          \<longrightarrow> (\<exists>this'. calibrate (Some kps) this = Returns (True, this')))
     \<and> (torsoAxis kps \<noteq> Vector3 0 0 0 \<and> cl \<noteq> 0 \<and> cr \<noteq> 0
          \<and> leftArm kps = multiplyScalar (torsoAxis kps) cl
          \<and> rightArm kps = multiplyScalar (torsoAxis kps) cr
          \<longrightarrow> calibrate (Some kps) this = Returns (False, this))"
proof (intro conjI impI)
  show "checkTpose (Some kps) = Returns
           (\<bar>dot (normalize (leftArm kps)) (normalize (torsoAxis kps))\<bar> < 0.3 \<and>
            \<bar>dot (normalize (rightArm kps)) (normalize (torsoAxis kps))\<bar> < 0.3)"
    using assms by (rule checkTpose_eq)
next
  assume perp: "dot (leftArm kps) (torsoAxis kps) = 0 \<and> dot (rightArm kps) (torsoAxis kps) = 0"
  then have "checkTpose (Some kps) = Returns True"
    using assms by (simp add: checkTpose_eq dot_normalize)
  moreover obtain this1 where "calculateBodyMeasurements (Some kps) this = Returns this1"
    using calculateBodyMeasurements_returns by blast
  ultimately show "\<exists>this'. calibrate (Some kps) this = Returns (True, this')"
    using calibrate_success [OF assms] by blast
next
  assume par: "torsoAxis kps \<noteq> Vector3 0 0 0 \<and> cl \<noteq> 0 \<and> cr \<noteq> 0
          \<and> leftArm kps = multiplyScalar (torsoAxis kps) cl
          \<and> rightArm kps = multiplyScalar (torsoAxis kps) cr"
  then have "\<bar>dot (normalize (leftArm kps)) (normalize (torsoAxis kps))\<bar> = 1"
    using parallel_dot [of "torsoAxis kps" cl] by simp
  then have "checkTpose (Some kps) = Returns False"
    using assms by (simp add: checkTpose_eq)
  then show "calibrate (Some kps) this = Returns (False, this)"
    by (simp add: calibrate_fail)
qed

theorem tpose_gate_witness:
  "(\<exists>this'. calibrate (Some tposeKeypoints) newClothingFit = Returns (True, this'))
   \<and> calibrate (Some armsDownKeypoints) newClothingFit = Returns (False, newClothingFit)
   \<and> checkTpose (Some tposeKeypoints) = Returns True"
proof -
  have len: "33 \<le> length tposeKeypoints" "33 \<le> length armsDownKeypoints"
    by (simp_all add: length_tpose length_armsDown)
  have perp: "dot (leftArm tposeKeypoints) (torsoAxis tposeKeypoints) = 0
      \<and> dot (rightArm tposeKeypoints) (torsoAxis tposeKeypoints) = 0"
    by (simp add: leftArm_def rightArm_def torsoAxis_def tpose_landmarks dot_def subVectors_def
          addVectors_def multiplyScalar_def)
  have par: "torsoAxis armsDownKeypoints \<noteq> Vector3 0 0 0 \<and> (- 2 / 3 :: real) \<noteq> 0 \<and> (- 2 / 3 :: real) \<noteq> 0
      \<and> leftArm armsDownKeypoints = multiplyScalar (torsoAxis armsDownKeypoints) (- 2 / 3)
      \<and> rightArm armsDownKeypoints = multiplyScalar (torsoAxis armsDownKeypoints) (- 2 / 3)"
    by (simp add: leftArm_def rightArm_def torsoAxis_def armsDown_landmarks subVectors_def
          addVectors_def multiplyScalar_def)
  from tpose_gate [OF len(1), of newClothingFit] perp
  have a: "\<exists>this'. calibrate (Some tposeKeypoints) newClothingFit = Returns (True, this')"
    and b: "checkTpose (Some tposeKeypoints) = Returns True"
    by (simp_all add: dot_normalize)
  from tpose_gate [OF len(2), of newClothingFit "- 2 / 3" "- 2 / 3"] par
  have c: "calibrate (Some armsDownKeypoints) newClothingFit = Returns (False, newClothingFit)"
    by blast
  from a b c show ?thesis by simp
qed

text \<open>
  C4: \<open>calibrate\<close> never raises. When the array is missing or has fewer than 33
  entries, or the T-pose check fails, it returns false and the state is the one it was
  called with. When the check succeeds on at least 33 landmarks it returns true, the
  stored measurements are those extracted from this input (the same that a fresh
  instance extracts from it), the flag is set, and nothing else changes.
\<close>

theorem calibrate_atomic:
  "((kps = None \<or> (\<exists>k. kps = Some k \<and> length k < 33) \<or> checkTpose kps = Returns False)
      \<longrightarrow> calibrate kps this = Returns (False, this))
   \<and> ((\<exists>k. kps = Some k \<and> 33 \<le> length k) \<and> checkTpose kps = Returns True
      \<longrightarrow> (\<exists>fresh. calculateBodyMeasurements kps newClothingFit = Returns fresh
            \<and> calibrate kps this =
                Returns (True, this\<lparr> userMeasurements := userMeasurements fresh,
                                      isCalibrated := True \<rparr>)))
   \<and> (\<exists>b. checkTpose kps = Returns b)"
proof (intro conjI impI)
  assume "kps = None \<or> (\<exists>k. kps = Some k \<and> length k < 33) \<or> checkTpose kps = Returns False"
  then show "calibrate kps this = Returns (False, this)" by (rule calibrate_fail)
next
  assume a: "(\<exists>k. kps = Some k \<and> 33 \<le> length k) \<and> checkTpose kps = Returns True"
  then obtain k where k: "kps = Some k" "33 \<le> length k" "checkTpose (Some k) = Returns True"
    by auto
  obtain fresh where f: "calculateBodyMeasurements (Some k) newClothingFit = Returns fresh"
    using calculateBodyMeasurements_returns by blast
  obtain this1 where t: "calculateBodyMeasurements (Some k) this = Returns this1"
    using calculateBodyMeasurements_returns by blast
  have "this1 = this\<lparr> userMeasurements := userMeasurements fresh \<rparr>"
    using measurements_independent [OF k(2) t f] .
  with calibrate_success [OF k(2) k(3) t] f k(1)
  show "\<exists>fresh. calculateBodyMeasurements kps newClothingFit = Returns fresh
            \<and> calibrate kps this =
                Returns (True, this\<lparr> userMeasurements := userMeasurements fresh,
                                      isCalibrated := True \<rparr>)"
    by auto
next
  show "\<exists>b. checkTpose kps = Returns b" by (rule checkTpose_returns)
qed

theorem calibrate_atomic_witness:
  "calibrate (Some []) newClothingFit = Returns (False, newClothingFit)
   \<and> calibrate None newClothingFit = Returns (False, newClothingFit)
   \<and> calibrate (Some armsDownKeypoints) newClothingFit = Returns (False, newClothingFit)
   \<and> calibrate (Some tposeKeypoints) newClothingFit =
       Returns (True, newClothingFit\<lparr> userMeasurements := exampleMeasured, isCalibrated := True \<rparr>)"
proof -
  have a: "calibrate (Some []) newClothingFit = Returns (False, newClothingFit)"
    using calibrate_atomic [of "Some []" newClothingFit] by simp
  have b: "calibrate None newClothingFit = Returns (False, newClothingFit)"
    using calibrate_atomic [of None newClothingFit] by simp
  have c: "calibrate (Some armsDownKeypoints) newClothingFit = Returns (False, newClothingFit)"
    using calibrate_atomic [of "Some armsDownKeypoints" newClothingFit] armsDown_check by simp
  have d: "calibrate (Some tposeKeypoints) newClothingFit =
       Returns (True, newClothingFit\<lparr> userMeasurements := exampleMeasured, isCalibrated := True \<rparr>)"
    using calibrate_atomic [of "Some tposeKeypoints" newClothingFit] tpose_check
    by (auto simp: length_tpose tpose_measurements)
  from a b c d show ?thesis by simp
qed


section \<open>The fit score\<close>

lemma calculateQualityScore_band:
  assumes "lo \<le> hi"
  shows "calculateQualityScore r lo hi =
     (if lo \<le> r \<and> r \<le> hi then 1 else max 0 (1 - 2 * min \<bar>r - lo\<bar> \<bar>r - hi\<bar>))"
  using assms by (auto simp: calculateQualityScore_def Let_def min_def max_def abs_if)

lemma fitQuality_fitted:
  assumes "33 \<le> length kps" "mt = ''tshirt'' \<or> mt = ''shirt''"
  shows "fitQuality (calculateFitQuality mt (Some kps) (Some m) this) =
     \<lparr> overall = calculateQualityScore
                   (shoulderWidth (userMeasurements this) / (vx (modelScale m) * 0.4)) 0.9 1.1 * 0.6
               + calculateQualityScore
                   (torsoLength (userMeasurements this) / (vy (modelScale m) * 0.6)) 0.9 1.1 * 0.4,
       shoulders = calculateQualityScore
                   (shoulderWidth (userMeasurements this) / (vx (modelScale m) * 0.4)) 0.9 1.1,
       torso = calculateQualityScore
                   (torsoLength (userMeasurements this) / (vy (modelScale m) * 0.6)) 0.9 1.1,
       arms = 0, legs = 0 \<rparr>"
  using assms by (auto simp: calculateFitQuality_def Let_def resetFitQuality_def)

text \<open>
  C3: for a band \<open>lo \<le> hi\<close> the score is 1 when the ratio lies in the band, bounds
  included, and \<open>max 0 (1 - 2 * deviation)\<close> otherwise, where the deviation is the
  distance to the nearer edge of the band. Against the band of fitted shirts, which
  \<open>calculateFitQuality\<close> uses for shoulders and torso (on a model whose scale is not
  zero), a ratio of 0.9 or 1.1 scores 1 and a ratio of 1.2 scores 0.8.
\<close>

theorem quality_score:
  assumes "lo \<le> hi"
  shows "calculateQualityScore r lo hi =
           (if lo \<le> r \<and> r \<le> hi then 1 else max 0 (1 - 2 * min \<bar>r - lo\<bar> \<bar>r - hi\<bar>))
     \<and> calculateQualityScore 0.9 0.9 1.1 = 1
     \<and> calculateQualityScore 1.1 0.9 1.1 = 1
     \<and> calculateQualityScore 1.2 0.9 1.1 = 0.8
     \<and> (33 \<le> length kps \<and> (mt = ''tshirt'' \<or> mt = ''shirt'')
          \<and> vx (modelScale m) \<noteq> 0 \<and> vy (modelScale m) \<noteq> 0 \<longrightarrow>
          shoulders (fitQuality (calculateFitQuality mt (Some kps) (Some m) this)) =
            calculateQualityScore
              (shoulderWidth (userMeasurements this) / (vx (modelScale m) * 0.4)) 0.9 1.1
        \<and> torso (fitQuality (calculateFitQuality mt (Some kps) (Some m) this)) =
            calculateQualityScore
              (torsoLength (userMeasurements this) / (vy (modelScale m) * 0.6)) 0.9 1.1)"
proof (intro conjI impI)
  show "calculateQualityScore r lo hi =
           (if lo \<le> r \<and> r \<le> hi then 1 else max 0 (1 - 2 * min \<bar>r - lo\<bar> \<bar>r - hi\<bar>))"
    using assms by (rule calculateQualityScore_band)
  show "calculateQualityScore 0.9 0.9 1.1 = 1" by (simp add: calculateQualityScore_def)
  show "calculateQualityScore 1.1 0.9 1.1 = 1" by (simp add: calculateQualityScore_def)
  show "calculateQualityScore 1.2 0.9 1.1 = 0.8" by (simp add: calculateQualityScore_def Let_def)
next
  assume a: "33 \<le> length kps \<and> (mt = ''tshirt'' \<or> mt = ''shirt'')
          \<and> vx (modelScale m) \<noteq> 0 \<and> vy (modelScale m) \<noteq> 0"
  then show "shoulders (fitQuality (calculateFitQuality mt (Some kps) (Some m) this)) =
            calculateQualityScore
              (shoulderWidth (userMeasurements this) / (vx (modelScale m) * 0.4)) 0.9 1.1"
    by (simp add: fitQuality_fitted)
  from a show "torso (fitQuality (calculateFitQuality mt (Some kps) (Some m) this)) =
            calculateQualityScore
              (torsoLength (userMeasurements this) / (vy (modelScale m) * 0.6)) 0.9 1.1"
    by (simp add: fitQuality_fitted)
qed

theorem quality_score_witness:
  "calculateQualityScore 1.3 0.9 1.1 = 0.6
   \<and> calculateQualityScore 0.2 0.9 1.1 = 0
   \<and> calculateQualityScore 1 0.9 1.1 = 1
   \<and> shoulders (fitQuality (calculateFitQuality ''tshirt'' (Some tposeKeypoints) (Some exampleModel)
        (newClothingFit\<lparr> userMeasurements := exampleMeasured \<rparr>))) = 0"
proof -
  have b: "(0.9::real) \<le> 1.1" by simp
  have h: "33 \<le> length tposeKeypoints \<and> (''tshirt'' = ''tshirt'' \<or> ''tshirt'' = ''shirt'')
      \<and> vx (modelScale exampleModel) \<noteq> 0 \<and> vy (modelScale exampleModel) \<noteq> 0"
    by (simp add: length_tpose exampleModel_def)
  have "calculateQualityScore 1.3 0.9 1.1 = 0.6"
    using quality_score [OF b, of "1.3"] by simp
  moreover have "calculateQualityScore 0.2 0.9 1.1 = 0"
    using quality_score [OF b, of "0.2"] by simp
  moreover have "calculateQualityScore 1 0.9 1.1 = 1"
    using quality_score [OF b, of 1] by simp
  moreover have "shoulders (fitQuality (calculateFitQuality ''tshirt'' (Some tposeKeypoints)
        (Some exampleModel) (newClothingFit\<lparr> userMeasurements := exampleMeasured \<rparr>))) = 0"
    using quality_score [OF b, of 5] h
      quality_score [OF b, of _ tposeKeypoints "''tshirt''" exampleModel
        "newClothingFit\<lparr> userMeasurements := exampleMeasured \<rparr>"]
    by (simp add: exampleModel_def exampleMeasured_def)
  ultimately show ?thesis by simp
qed


section \<open>The garment transform and its smoothing\<close>

lemma targetTransform_fitted:
  assumes "mt = ''tshirt'' \<or> mt = ''shirt''"
  shows "scale (targetTransform ops mt sa base lm) =
     Vector3 (distanceTo (leftShoulder lm) (rightShoulder lm) / shoulderWidth base * sa)
             (distanceTo (multiplyScalar (addVectors (leftShoulder lm) (rightShoulder lm)) 0.5)
                         (multiplyScalar (addVectors (leftHip lm) (rightHip lm)) 0.5)
                / torsoLength base * sa)
             ((distanceTo (leftShoulder lm) (rightShoulder lm) / shoulderWidth base
               + distanceTo (multiplyScalar (addVectors (leftShoulder lm) (rightShoulder lm)) 0.5)
                            (multiplyScalar (addVectors (leftHip lm) (rightHip lm)) 0.5)
                   / torsoLength base) / 2 * sa)"
  using assms by (auto simp: targetTransform_def Let_def)

lemma targetTransform_loose:
  assumes "mt = ''jacket'' \<or> mt = ''hoodie''"
  shows "scale (targetTransform ops mt sa base lm) =
     Vector3 (distanceTo (leftShoulder lm) (rightShoulder lm) / shoulderWidth base * 1.1 * sa)
             (distanceTo (multiplyScalar (addVectors (leftShoulder lm) (rightShoulder lm)) 0.5)
                         (multiplyScalar (addVectors (leftHip lm) (rightHip lm)) 0.5)
                / torsoLength base * 1.05 * sa)
             ((distanceTo (leftShoulder lm) (rightShoulder lm) / shoulderWidth base * 1.1
               + distanceTo (multiplyScalar (addVectors (leftShoulder lm) (rightShoulder lm)) 0.5)
                            (multiplyScalar (addVectors (leftHip lm) (rightHip lm)) 0.5)
                   / torsoLength base * 1.05) / 2 * sa)"
  using assms by (auto simp: targetTransform_def Let_def)

lemma updateModelFit_eq:
  assumes len: "33 \<le> length kps"
    and lm: "getKeyLandmarks kps = Returns lm"
    and this1: "calculateBodyMeasurements (Some kps) this = Returns this1"
    and target: "target = targetTransform ops (optModelType options) (optSizeAdjustment options) base lm"
    and applied: "applied =
        \<lparr> position = lerp (modelPosition m) (position target) (1 - smoothingFactor this),
          rotation = slerp ops (modelQuaternion m) (rotation target) (1 - smoothingFactor this),
          scale = lerp (modelScale m) (scale target) (1 - smoothingFactor this) \<rparr>"
    and m': "m' = m\<lparr> modelPosition := position applied, modelQuaternion := rotation applied,
                      modelScale := scale applied \<rparr>"
    and this3: "this3 = calculateFitQuality (optModelType options) (Some kps) (Some m')
        (this1\<lparr> previousTransforms := (previousTransforms this)(uuid m \<mapsto> applied) \<rparr>)"
  shows "updateModelFit ops (Some m) (Some kps) base options this =
     Returns (Some \<lparr> position = position applied, rotation = rotation applied,
                     scale = scale applied, resultFitQuality = fitQuality this3 \<rparr>,
              Some m', this3)"
proof -
  have sf: "smoothingFactor this1 = smoothingFactor this"
    and pt: "previousTransforms this1 = previousTransforms this"
    using calculateBodyMeasurements_keeps [OF this1] by simp_all
  show ?thesis
  proof (cases "previousTransforms this (uuid m)")
    case None
    then show ?thesis
      using len
      by (simp add: updateModelFit_def lm this1 andThen_Returns Let_def sf pt target applied m' this3
            optModelType_def optSizeAdjustment_def Transform_overwrite)
  next
    case (Some t)
    then show ?thesis
      using len
      by (simp add: updateModelFit_def lm this1 andThen_Returns Let_def sf pt target applied m' this3
            optModelType_def optSizeAdjustment_def Transform_overwrite)
  qed
qed

lemma updateModelFit_guard:
  assumes "model = None \<or> kps = None \<or> (\<exists>k. kps = Some k \<and> length k < 33)"
  shows "updateModelFit ops model kps base options this = Returns (None, model, this)"
  using assms by (auto simp: updateModelFit_def split: option.splits)

lemma updateModelFit_returns:
  "\<exists>r. updateModelFit ops model kps base options this = Returns r"
proof (cases "model = None \<or> kps = None \<or> (\<exists>k. kps = Some k \<and> length k < 33)")
  case True
  then show ?thesis using updateModelFit_guard by blast
next
  case False
  then obtain m k where mk: "model = Some m" "kps = Some k" "33 \<le> length k"
    by (cases model; cases kps) auto
  obtain this1 where "calculateBodyMeasurements (Some k) this = Returns this1"
    using calculateBodyMeasurements_returns by blast
  from updateModelFit_eq [OF mk(3) getKeyLandmarks_eq this refl refl refl refl] mk
  show ?thesis by blast
qed

lemma basis_tpose:
  "setFromRotationMatrix (Vector3 (- 1) 0 0) (Vector3 0 1 0) (Vector3 0 0 (- 1)) = Quaternion 0 1 0 0"
  by (simp add: setFromRotationMatrix_def Let_def)

lemma slerp_tpose:
  "quaternionSlerp newQuaternion (Quaternion 0 1 0 0) (1 / 5)
     = Quaternion 0 (sin (pi / 10)) 0 (sin (2 * pi / 5))"
proof -
  have a: "(1 - 1 / 5) * (pi / 2) = 2 * pi / 5" "(1 / 5) * (pi / 2) = pi / 10"
    by simp_all
  have e: "\<not> (1::real) \<le> numberEPSILON"
    by (simp add: numberEPSILON_def)
  show ?thesis
    using a e
    by (simp add: quaternionSlerp_def newQuaternion_def Let_def atan2_def)
qed

lemma sin_tenth_pi: "sin (pi / 10) < 1 / 2"
proof -
  have "sin (pi / 10) \<le> pi / 10" by (rule sin_x_le_x) simp
  also have "\<dots> < 4 / 10" using pi_less_4 by simp
  finally show ?thesis by simp
qed

lemma tpose_axes:
  "normalize (Vector3 (- 2) 0 0) = Vector3 (- 1) 0 0"
  "normalize (Vector3 0 3 0) = Vector3 0 1 0"
  "normalize (Vector3 0 0 (- 1)) = Vector3 0 0 (- 1)"
  by (simp_all add: normalize_def divideScalar_def multiplyScalar_def vlength_def sqrt_9)

lemma tpose_target:
  "targetOf exampleQuaternionOps tposeKeypoints exampleMeasured defaultOptions =
     Returns \<lparr> position = Vector3 0 (- 1.5) 0, rotation = Quaternion 0 1 0 0,
               scale = Vector3 1 1 1 \<rparr>"
proof -
  have ax: "subVectors (Vector3 (- 1) 0 0) (Vector3 1 0 0) = Vector3 (- 2) 0 0"
    "subVectors (Vector3 0 0 0) (Vector3 0 (- 3) 0) = Vector3 0 3 0"
    "crossVectors (Vector3 (- 1) 0 0) (Vector3 0 1 0) = Vector3 0 0 (- 1)"
    by (simp_all add: subVectors_def crossVectors_def)
  have mid: "multiplyScalar (addVectors (Vector3 1 0 0) (Vector3 (- 1) 0 0)) (1 / 2) = Vector3 0 0 0"
    "multiplyScalar (addVectors (Vector3 1 (- 3) 0) (Vector3 (- 1) (- 3) 0)) (1 / 2)
       = Vector3 0 (- 3) 0"
    "multiplyScalar (addVectors (Vector3 0 0 0) (Vector3 0 (- 3) 0)) (1 / 2)
       = Vector3 0 (- (3 / 2)) 0"
    by (simp_all add: addVectors_def multiplyScalar_def)
  have d: "distanceTo (Vector3 1 0 0) (Vector3 (- 1) 0 0) = 2"
    "distanceTo (Vector3 0 0 0) (Vector3 0 (- 3) 0) = 3"
    by (simp_all add: distanceTo_def distanceToSquared_def sqrt_9)
  show ?thesis
    by (simp add: targetOf_def tpose_keyLandmarks andThen_Returns targetTransform_def Let_def
          optModelType_def optSizeAdjustment_def defaultOptions_def exampleQuaternionOps_def
          exampleMeasured_def mid ax d tpose_axes basis_tpose)
qed

lemma applied_ignores_previousTransforms:
  "appliedTransform (updateModelFit ops model kps base options (this\<lparr> previousTransforms := pt \<rparr>))
     = appliedTransform (updateModelFit ops model kps base options this)"
proof (cases "model = None \<or> kps = None \<or> (\<exists>k. kps = Some k \<and> length k < 33)")
  case True
  then show ?thesis by (simp add: updateModelFit_guard appliedTransform_def)
next
  case False
  then obtain m k where mk: "model = Some m" "kps = Some k" "33 \<le> length k"
    by (cases model; cases kps) auto
  show ?thesis
    unfolding mk
      updateModelFit_eq [OF mk(3) getKeyLandmarks_eq calculateBodyMeasurements_eq [OF mk(3)]
        refl refl refl refl]
    by (simp add: appliedTransform_def)
qed

text \<open>
  C1: for every input of at least 33 landmarks and base measurements that are not zero,
  the target scale for \<open>tshirt\<close> and \<open>shirt\<close> has \<open>x\<close> = shoulder ratio times the size
  adjustment, \<open>y\<close> = torso ratio times the size adjustment and \<open>z\<close> = the average of
  the two ratios times the size adjustment, the ratios being the measured shoulder width
  and torso length of the frame over the base ones. For \<open>jacket\<close> and \<open>hoodie\<close> the
  shoulder ratio is first multiplied by 1.1 and the torso ratio by 1.05. This target is
  the one \<open>updateModelFit\<close> moves the scale of the model toward.
\<close>

theorem upper_torso_scale:
  assumes "33 \<le> length kps" "shoulderWidth base \<noteq> 0" "torsoLength base \<noteq> 0"
    and "mt = ''tshirt'' \<or> mt = ''shirt'' \<or> mt = ''jacket'' \<or> mt = ''hoodie''"
  shows "\<exists>lm this1 res m' this'.
       getKeyLandmarks kps = Returns lm
     \<and> calculateBodyMeasurements (Some kps) this = Returns this1
     \<and> ((mt = ''tshirt'' \<or> mt = ''shirt'') \<longrightarrow>
          scale (targetTransform ops mt sa base lm) =
            Vector3 (shoulderWidth (userMeasurements this1) / shoulderWidth base * sa)
                    (torsoLength (userMeasurements this1) / torsoLength base * sa)
                    ((shoulderWidth (userMeasurements this1) / shoulderWidth base
                      + torsoLength (userMeasurements this1) / torsoLength base) / 2 * sa))
     \<and> ((mt = ''jacket'' \<or> mt = ''hoodie'') \<longrightarrow>
          scale (targetTransform ops mt sa base lm) =
            Vector3 (shoulderWidth (userMeasurements this1) / shoulderWidth base * 1.1 * sa)
                    (torsoLength (userMeasurements this1) / torsoLength base * 1.05 * sa)
                    ((shoulderWidth (userMeasurements this1) / shoulderWidth base * 1.1
                      + torsoLength (userMeasurements this1) / torsoLength base * 1.05) / 2 * sa))
     \<and> updateModelFit ops (Some m) (Some kps) base
          \<lparr> sizeAdjustment = Some sa, modelType = Some mt \<rparr> this = Returns (Some res, Some m', this')
     \<and> scale res = lerp (modelScale m) (scale (targetTransform ops mt sa base lm))
                      (1 - smoothingFactor this)"
proof -
  obtain this1 where t1: "calculateBodyMeasurements (Some kps) this = Returns this1"
    using calculateBodyMeasurements_returns by blast
  have um: "shoulderWidth (userMeasurements this1) = distanceTo (landmarkAt kps 11) (landmarkAt kps 12)"
    "torsoLength (userMeasurements this1) = distanceTo
           (multiplyScalar (addVectors (landmarkAt kps 11) (landmarkAt kps 12)) 0.5)
           (multiplyScalar (addVectors (landmarkAt kps 23) (landmarkAt kps 24)) 0.5)"
    using t1 assms(1) by (auto simp: calculateBodyMeasurements_eq)
  note u = updateModelFit_eq [OF assms(1) getKeyLandmarks_eq t1 refl refl refl refl,
      where ops = ops and options = "\<lparr> sizeAdjustment = Some sa, modelType = Some mt \<rparr>"
        and base = base and m = m]
  show ?thesis
    apply (intro exI conjI)
         apply (rule getKeyLandmarks_eq)
        apply (rule t1)
       apply (simp add: targetTransform_fitted um)
      apply (simp add: targetTransform_loose um)
     apply (rule u)
    apply (simp add: optModelType_def optSizeAdjustment_def)
    done
qed

theorem upper_torso_scale_witness:
  "\<exists>lm. getKeyLandmarks tposeKeypoints = Returns lm
     \<and> scale (targetTransform exampleQuaternionOps ''tshirt'' 2 exampleMeasured lm) = Vector3 2 2 2
     \<and> scale (targetTransform exampleQuaternionOps ''jacket'' 2 exampleMeasured lm)
         = Vector3 2.2 2.1 2.15"
proof -
  have h: "33 \<le> length tposeKeypoints" "shoulderWidth exampleMeasured \<noteq> 0"
    "torsoLength exampleMeasured \<noteq> 0"
    by (simp_all add: length_tpose exampleMeasured_def)
  have ht: "''tshirt'' = ''tshirt'' \<or> ''tshirt'' = ''shirt'' \<or> ''tshirt'' = ''jacket''
      \<or> ''tshirt'' = ''hoodie''"
    and hj: "''jacket'' = ''tshirt'' \<or> ''jacket'' = ''shirt'' \<or> ''jacket'' = ''jacket''
      \<or> ''jacket'' = ''hoodie''"
    by simp_all
  obtain lm this1 where a: "getKeyLandmarks tposeKeypoints = Returns lm"
    and b: "calculateBodyMeasurements (Some tposeKeypoints) newClothingFit = Returns this1"
    and c: "scale (targetTransform exampleQuaternionOps ''tshirt'' 2 exampleMeasured lm) =
            Vector3 (shoulderWidth (userMeasurements this1) / shoulderWidth exampleMeasured * 2)
                    (torsoLength (userMeasurements this1) / torsoLength exampleMeasured * 2)
                    ((shoulderWidth (userMeasurements this1) / shoulderWidth exampleMeasured
                      + torsoLength (userMeasurements this1) / torsoLength exampleMeasured) / 2 * 2)"
    using upper_torso_scale [OF h ht, where this = newClothingFit and ops = exampleQuaternionOps
        and sa = 2 and m = exampleModel]
    by auto
  obtain lm' this1' where a': "getKeyLandmarks tposeKeypoints = Returns lm'"
    and b': "calculateBodyMeasurements (Some tposeKeypoints) newClothingFit = Returns this1'"
    and c': "scale (targetTransform exampleQuaternionOps ''jacket'' 2 exampleMeasured lm') =
            Vector3 (shoulderWidth (userMeasurements this1') / shoulderWidth exampleMeasured * 1.1 * 2)
                    (torsoLength (userMeasurements this1') / torsoLength exampleMeasured * 1.05 * 2)
                    ((shoulderWidth (userMeasurements this1') / shoulderWidth exampleMeasured * 1.1
                      + torsoLength (userMeasurements this1') / torsoLength exampleMeasured * 1.05) / 2 * 2)"
    using upper_torso_scale [OF h hj, where this = newClothingFit and ops = exampleQuaternionOps
        and sa = 2 and m = exampleModel]
    by auto
  have lm: "lm' = lm" using a a' by simp
  have t: "this1 = newClothingFit\<lparr> userMeasurements := exampleMeasured \<rparr>" "this1' = this1"
    using b b' by (simp_all add: tpose_measurements)
  show ?thesis
    using a c c' by (simp add: lm t exampleMeasured_def)
qed

text \<open>
  C6: the first call for a model does smooth. The call seeds the persisted entry with
  the target, but the interpolation starts from the transform the model already had, and
  the seeded entry is overwritten without having been read. On a fresh instance (default
  smoothing factor 0.8, no persisted entry), a freshly loaded model at the origin and the
  T-pose frame, the target is position \<open>(0, -1.5, 0)\<close>, rotation \<open>(0, 1, 0, 0)\<close> and
  scale \<open>(1, 1, 1)\<close>, while the transform that the first call applies has position
  \<open>(0, -0.3, 0)\<close> and rotation \<open>(0, sin (pi / 10), 0, sin (2 pi / 5))\<close>, about
  \<open>(0, 0.309, 0, 0.951)\<close>: one fifth of the way from the old transform, not the target.
\<close>

theorem first_call_is_smoothed:
  "previousTransforms newClothingFit (uuid exampleModel) = None
   \<and> targetOf exampleQuaternionOps tposeKeypoints exampleMeasured defaultOptions =
       Returns \<lparr> position = Vector3 0 (- 1.5) 0, rotation = Quaternion 0 1 0 0,
                 scale = Vector3 1 1 1 \<rparr>
   \<and> appliedTransform (updateModelFit exampleQuaternionOps (Some exampleModel)
         (Some tposeKeypoints) exampleMeasured defaultOptions newClothingFit) =
       Some \<lparr> position = Vector3 0 (- 0.3) 0,
              rotation = Quaternion 0 (sin (pi / 10)) 0 (sin (2 * pi / 5)),
              scale = Vector3 1 1 1 \<rparr>
   \<and> sin (pi / 10) < 1 / 2"
proof -
  have len: "33 \<le> length tposeKeypoints" by (simp add: length_tpose)
  note u = updateModelFit_eq [OF len tpose_keyLandmarks tpose_measurements refl refl refl refl,
      where ops = exampleQuaternionOps and options = defaultOptions and base = exampleMeasured
        and m = exampleModel]
  have t: "targetTransform exampleQuaternionOps (optModelType defaultOptions)
             (optSizeAdjustment defaultOptions) exampleMeasured
             \<lparr> leftShoulder = Vector3 1 0 0, rightShoulder = Vector3 (-1) 0 0,
               leftHip = Vector3 1 (-3) 0, rightHip = Vector3 (-1) (-3) 0,
               leftElbow = Vector3 2 0 0, rightElbow = Vector3 (-2) 0 0,
               leftWrist = Vector3 3 0 0, rightWrist = Vector3 (-3) 0 0,
               leftKnee = Vector3 1 (-4) 0, rightKnee = Vector3 (-1) (-4) 0,
               leftAnkle = Vector3 1 (-5) 0, rightAnkle = Vector3 (-1) (-5) 0 \<rparr>
           = \<lparr> position = Vector3 0 (- 1.5) 0, rotation = Quaternion 0 1 0 0,
               scale = Vector3 1 1 1 \<rparr>"
    using tpose_target by (simp add: targetOf_def tpose_keyLandmarks andThen_Returns)
  have w: "1 - smoothingFactor newClothingFit = 1 / 5"
    by (simp add: newClothingFit_def)
  have sl: "slerp exampleQuaternionOps (modelQuaternion exampleModel) (Quaternion 0 1 0 0) (1 / 5)
      = Quaternion 0 (sin (pi / 10)) 0 (sin (2 * pi / 5))"
    by (simp add: exampleQuaternionOps_def exampleModel_def slerp_tpose)
  have "appliedTransform (updateModelFit exampleQuaternionOps (Some exampleModel)
         (Some tposeKeypoints) exampleMeasured defaultOptions newClothingFit) =
       Some \<lparr> position = Vector3 0 (- 0.3) 0,
              rotation = Quaternion 0 (sin (pi / 10)) 0 (sin (2 * pi / 5)),
              scale = Vector3 1 1 1 \<rparr>"
    unfolding u t w
    by (simp add: appliedTransform_def sl) (simp add: lerp_def exampleModel_def)
  then show ?thesis
    using tpose_target sin_tenth_pi by (simp add: newClothingFit_def)
qed

text \<open>
  C9, as the code has it: when the model or the landmark array is missing, or the array
  has fewer than 33 entries, \<open>updateModelFit\<close> returns \<open>undefined\<close>, no transform at
  all, without raising, and leaves the model and the whole state (stored measurements
  included) unchanged.
\<close>

theorem solver_guard:
  assumes "model = None \<or> kps = None \<or> (\<exists>k. kps = Some k \<and> length k < 33)"
  shows "updateModelFit ops model kps base options this = Returns (None, model, this)"
  using assms by (rule updateModelFit_guard)

theorem solver_guard_witness:
  "updateModelFit exampleQuaternionOps None (Some tposeKeypoints) exampleMeasured defaultOptions
       newClothingFit = Returns (None, None, newClothingFit)
   \<and> updateModelFit exampleQuaternionOps (Some exampleModel) None exampleMeasured defaultOptions
       newClothingFit = Returns (None, Some exampleModel, newClothingFit)
   \<and> updateModelFit exampleQuaternionOps (Some exampleModel) (Some (take 32 tposeKeypoints))
       exampleMeasured defaultOptions newClothingFit
       = Returns (None, Some exampleModel, newClothingFit)"
  using solver_guard [of None "Some tposeKeypoints" exampleQuaternionOps exampleMeasured
      defaultOptions newClothingFit]
    solver_guard [of "Some exampleModel" None exampleQuaternionOps exampleMeasured
      defaultOptions newClothingFit]
    solver_guard [of "Some exampleModel" "Some (take 32 tposeKeypoints)" exampleQuaternionOps
      exampleMeasured defaultOptions newClothingFit]
  by (simp add: length_tpose)

text \<open>
  The claim as stated fails: for an empty landmark array the result holds no transform.
\<close>

theorem solver_guard_counterexample:
  "appliedTransform (updateModelFit exampleQuaternionOps (Some exampleModel) (Some [])
       exampleMeasured defaultOptions newClothingFit) = None
   \<and> updateModelFit exampleQuaternionOps (Some exampleModel) (Some [])
       exampleMeasured defaultOptions newClothingFit
       = Returns (None, Some exampleModel, newClothingFit)"
  by (simp add: updateModelFit_guard appliedTransform_def)


section \<open>Invalid entries\<close>

lemma vec3Of_asZeroPosition: "vec3Of (asZeroPosition k) = vec3Of k"
  by (cases k rule: asZeroPosition.cases) simp_all

lemma landmarkAt_asZeroPosition: "landmarkAt (map asZeroPosition kps) i = landmarkAt kps i"
  by (simp add: landmarkAt_def entryAt_def vec3Of_asZeroPosition)

lemma measurements_asZeroPosition:
  "calculateBodyMeasurements (Some (map asZeroPosition kps)) this
     = calculateBodyMeasurements (Some kps) this"
proof (cases "length kps < 33")
  case True
  then show ?thesis by (simp add: calculateBodyMeasurements_def)
next
  case False
  then have "33 \<le> length kps" "33 \<le> length (map asZeroPosition kps)" by simp_all
  then show ?thesis
    by (simp add: calculateBodyMeasurements_eq landmarkAt_asZeroPosition)
qed

lemma checkTpose_asZeroPosition:
  "checkTpose (Some (map asZeroPosition kps)) = checkTpose (Some kps)"
proof (cases "length kps < 33")
  case True
  then show ?thesis by (simp add: checkTpose_def)
next
  case False
  then have "33 \<le> length kps" "33 \<le> length (map asZeroPosition kps)" by simp_all
  then show ?thesis
    by (simp add: checkTpose_eq leftArm_def rightArm_def torsoAxis_def landmarkAt_asZeroPosition)
qed

lemma calibrate_asZeroPosition:
  "calibrate (Some (map asZeroPosition kps)) this = calibrate (Some kps) this"
proof -
  obtain b where b: "checkTpose (Some kps) = Returns b" using checkTpose_returns by blast
  show ?thesis
    by (cases b)
      (simp_all add: calibrate_def checkTpose_asZeroPosition measurements_asZeroPosition b
        andThen_Returns)
qed

lemma getKeyLandmarks_asZeroPosition:
  "getKeyLandmarks (map asZeroPosition kps) = getKeyLandmarks kps"
  by (simp add: getKeyLandmarks_eq landmarkAt_asZeroPosition)

lemma calculateFitQuality_length:
  "length kps' = length kps \<Longrightarrow>
     calculateFitQuality mt (Some kps') model s = calculateFitQuality mt (Some kps) model s"
  by (simp add: calculateFitQuality_def)

lemma updateModelFit_asZeroPosition:
  "updateModelFit ops model (Some (map asZeroPosition kps)) base options this
     = updateModelFit ops model (Some kps) base options this"
proof (cases model)
  case None
  then show ?thesis by (simp add: updateModelFit_def)
next
  case (Some m)
  show ?thesis
  proof (cases "length kps < 33")
    case True
    with Some show ?thesis by (simp add: updateModelFit_def)
  next
    case False
    then have len: "33 \<le> length kps" "33 \<le> length (map asZeroPosition kps)" by simp_all
    obtain this1 where t1: "calculateBodyMeasurements (Some kps) this = Returns this1"
      using calculateBodyMeasurements_returns by blast
    then have t1': "calculateBodyMeasurements (Some (map asZeroPosition kps)) this = Returns this1"
      by (simp add: measurements_asZeroPosition)
    have lm': "getKeyLandmarks (map asZeroPosition kps) = Returns
     \<lparr> leftShoulder = landmarkAt kps 11, rightShoulder = landmarkAt kps 12,
       leftHip = landmarkAt kps 23, rightHip = landmarkAt kps 24,
       leftElbow = landmarkAt kps 13, rightElbow = landmarkAt kps 14,
       leftWrist = landmarkAt kps 15, rightWrist = landmarkAt kps 16,
       leftKnee = landmarkAt kps 25, rightKnee = landmarkAt kps 26,
       leftAnkle = landmarkAt kps 27, rightAnkle = landmarkAt kps 28 \<rparr>"
      by (simp add: getKeyLandmarks_eq landmarkAt_asZeroPosition)
    have fq: "\<And>mt mo s. calculateFitQuality mt (Some (map asZeroPosition kps)) mo s
        = calculateFitQuality mt (Some kps) mo s"
      by (rule calculateFitQuality_length) simp
    show ?thesis
      unfolding Some
        updateModelFit_eq [OF len(1) getKeyLandmarks_eq t1 refl refl refl refl]
        updateModelFit_eq [OF len(2) lm' t1' refl refl refl refl]
      by (simp add: fq landmarkAt_asZeroPosition)
  qed
qed

lemma calculateFitQuality_userMeasurements:
  "userMeasurements (calculateFitQuality mt k mo s) = userMeasurements s"
  by (simp add: calculateFitQuality_def Let_def split: option.splits)

lemma invalid_landmark:
  assumes "entryAt kps i = Undefined \<or> entryAt kps i = Null
      \<or> (\<exists>y z v. entryAt kps i = Keypoint None y z v)"
  shows "landmarkAt kps i = Vector3 0 0 0"
  using assms by (auto simp: landmarkAt_def)

lemma calibrate_eq:
  assumes "33 \<le> length kps" "calculateBodyMeasurements (Some kps) this = Returns this1"
  shows "calibrate (Some kps) this = Returns
     (if \<bar>dot (normalize (leftArm kps)) (normalize (torsoAxis kps))\<bar> < 0.3
         \<and> \<bar>dot (normalize (rightArm kps)) (normalize (torsoAxis kps))\<bar> < 0.3
      then (True, this1\<lparr> isCalibrated := True \<rparr>) else (False, this))"
  using assms by (simp add: calibrate_def checkTpose_eq andThen_Returns)

text \<open>
  C10: \<open>keypointToVector3\<close> never raises: it returns the zero vector for
  \<open>undefined\<close>, for \<open>null\<close> and for an object whose \<open>x\<close> is not a number, and
  \<open>(x, -y, -z)\<close> for a well-formed entry. Hence extraction, calibration and solving
  return for every landmark array, and each gives the same result as on the array in
  which every invalid entry is replaced by a point at the origin. An array of at least
  33 entries is processed, not rejected, whatever its entries are: the landmark of an
  invalid entry is the origin, extraction overwrites the five stored measurements with
  the distances between the landmarks and changes nothing else, solving returns a
  transform (interpolated toward the target of these landmarks) and stores the same
  measurements, and calibration commits them exactly when the T-pose test on these
  landmarks passes.
\<close>

theorem keypoint_conversion_total:
  "keypointToVector3 Undefined = Returns (Vector3 0 0 0)
   \<and> keypointToVector3 Null = Returns (Vector3 0 0 0)
   \<and> keypointToVector3 (Keypoint None y z v) = Returns (Vector3 0 0 0)
   \<and> keypointToVector3 (Keypoint (Some x) y z v) = Returns (Vector3 x (- y) (- z))
   \<and> (\<exists>s. calculateBodyMeasurements (Some kps) this = Returns s)
   \<and> (\<exists>r. calibrate (Some kps) this = Returns r)
   \<and> (\<exists>r. updateModelFit ops model (Some kps) base options this = Returns r)
   \<and> calculateBodyMeasurements (Some (map asZeroPosition kps)) this
        = calculateBodyMeasurements (Some kps) this
   \<and> calibrate (Some (map asZeroPosition kps)) this = calibrate (Some kps) this
   \<and> updateModelFit ops model (Some (map asZeroPosition kps)) base options this
        = updateModelFit ops model (Some kps) base options this
   \<and> (entryAt kps i = Undefined \<or> entryAt kps i = Null
          \<or> (\<exists>y z v. entryAt kps i = Keypoint None y z v)
        \<longrightarrow> landmarkAt kps i = Vector3 0 0 0)
   \<and> (33 \<le> length kps \<longrightarrow>
        (\<exists>this1 lm res m' this'.
            calculateBodyMeasurements (Some kps) this = Returns this1
          \<and> this1 = this\<lparr> userMeasurements := userMeasurements this1 \<rparr>
          \<and> shoulderWidth (userMeasurements this1)
               = distanceTo (landmarkAt kps 11) (landmarkAt kps 12)
          \<and> hipWidth (userMeasurements this1)
               = distanceTo (landmarkAt kps 23) (landmarkAt kps 24)
          \<and> torsoLength (userMeasurements this1) = distanceTo
               (multiplyScalar (addVectors (landmarkAt kps 11) (landmarkAt kps 12)) 0.5)
               (multiplyScalar (addVectors (landmarkAt kps 23) (landmarkAt kps 24)) 0.5)
          \<and> armLength (userMeasurements this1) =
               ((distanceTo (landmarkAt kps 11) (landmarkAt kps 13)
                  + distanceTo (landmarkAt kps 13) (landmarkAt kps 15))
              + (distanceTo (landmarkAt kps 12) (landmarkAt kps 14)
                  + distanceTo (landmarkAt kps 14) (landmarkAt kps 16))) / 2
          \<and> legLength (userMeasurements this1) =
               ((distanceTo (landmarkAt kps 23) (landmarkAt kps 25)
                  + distanceTo (landmarkAt kps 25) (landmarkAt kps 27))
              + (distanceTo (landmarkAt kps 24) (landmarkAt kps 26)
                  + distanceTo (landmarkAt kps 26) (landmarkAt kps 28))) / 2
          \<and> getKeyLandmarks kps = Returns lm
          \<and> leftShoulder lm = landmarkAt kps 11 \<and> rightShoulder lm = landmarkAt kps 12
          \<and> leftHip lm = landmarkAt kps 23 \<and> rightHip lm = landmarkAt kps 24
          \<and> updateModelFit ops (Some m) (Some kps) base options this
               = Returns (Some res, Some m', this')
          \<and> position res = lerp (modelPosition m)
               (position (targetTransform ops (optModelType options) (optSizeAdjustment options)
                  base lm))
               (1 - smoothingFactor this)
          \<and> scale res = lerp (modelScale m)
               (scale (targetTransform ops (optModelType options) (optSizeAdjustment options)
                  base lm))
               (1 - smoothingFactor this)
          \<and> userMeasurements this' = userMeasurements this1
          \<and> calibrate (Some kps) this = Returns
               (if \<bar>dot (normalize (leftArm kps)) (normalize (torsoAxis kps))\<bar> < 0.3
                   \<and> \<bar>dot (normalize (rightArm kps)) (normalize (torsoAxis kps))\<bar> < 0.3
                then (True, this1\<lparr> isCalibrated := True \<rparr>) else (False, this))))"
proof (intro conjI impI)
  show "keypointToVector3 Undefined = Returns (Vector3 0 0 0)"
    and "keypointToVector3 Null = Returns (Vector3 0 0 0)"
    and "keypointToVector3 (Keypoint None y z v) = Returns (Vector3 0 0 0)"
    and "keypointToVector3 (Keypoint (Some x) y z v) = Returns (Vector3 x (- y) (- z))"
    by (simp_all add: keypointToVector3_eq)
  show "\<exists>s. calculateBodyMeasurements (Some kps) this = Returns s"
    by (rule calculateBodyMeasurements_returns)
  show "\<exists>r. calibrate (Some kps) this = Returns r"
  proof -
    obtain b where b: "checkTpose (Some kps) = Returns b" using checkTpose_returns by blast
    obtain s where s: "calculateBodyMeasurements (Some kps) this = Returns s"
      using calculateBodyMeasurements_returns by blast
    show ?thesis by (cases b) (auto simp: calibrate_def b s andThen_Returns)
  qed
  show "\<exists>r. updateModelFit ops model (Some kps) base options this = Returns r"
    by (rule updateModelFit_returns)
  show "calculateBodyMeasurements (Some (map asZeroPosition kps)) this
        = calculateBodyMeasurements (Some kps) this"
    by (rule measurements_asZeroPosition)
  show "calibrate (Some (map asZeroPosition kps)) this = calibrate (Some kps) this"
    by (rule calibrate_asZeroPosition)
  show "updateModelFit ops model (Some (map asZeroPosition kps)) base options this
        = updateModelFit ops model (Some kps) base options this"
    by (rule updateModelFit_asZeroPosition)
next
  assume "entryAt kps i = Undefined \<or> entryAt kps i = Null
          \<or> (\<exists>y z v. entryAt kps i = Keypoint None y z v)"
  then show "landmarkAt kps i = Vector3 0 0 0" by (rule invalid_landmark)
next
  assume len: "33 \<le> length kps"
  note m1 = calculateBodyMeasurements_eq [OF len, of this]
  note u = updateModelFit_eq [OF len getKeyLandmarks_eq m1 refl refl refl refl,
      where ops = ops and options = options and base = base and m = m]
  note c = calibrate_eq [OF len m1]
  show "\<exists>this1 lm res m' this'.
            calculateBodyMeasurements (Some kps) this = Returns this1
          \<and> this1 = this\<lparr> userMeasurements := userMeasurements this1 \<rparr>
          \<and> shoulderWidth (userMeasurements this1)
               = distanceTo (landmarkAt kps 11) (landmarkAt kps 12)
          \<and> hipWidth (userMeasurements this1)
               = distanceTo (landmarkAt kps 23) (landmarkAt kps 24)
          \<and> torsoLength (userMeasurements this1) = distanceTo
               (multiplyScalar (addVectors (landmarkAt kps 11) (landmarkAt kps 12)) 0.5)
               (multiplyScalar (addVectors (landmarkAt kps 23) (landmarkAt kps 24)) 0.5)
          \<and> armLength (userMeasurements this1) =
               ((distanceTo (landmarkAt kps 11) (landmarkAt kps 13)
                  + distanceTo (landmarkAt kps 13) (landmarkAt kps 15))
              + (distanceTo (landmarkAt kps 12) (landmarkAt kps 14)
                  + distanceTo (landmarkAt kps 14) (landmarkAt kps 16))) / 2
          \<and> legLength (userMeasurements this1) =
               ((distanceTo (landmarkAt kps 23) (landmarkAt kps 25)
                  + distanceTo (landmarkAt kps 25) (landmarkAt kps 27))
              + (distanceTo (landmarkAt kps 24) (landmarkAt kps 26)
                  + distanceTo (landmarkAt kps 26) (landmarkAt kps 28))) / 2
          \<and> getKeyLandmarks kps = Returns lm
          \<and> leftShoulder lm = landmarkAt kps 11 \<and> rightShoulder lm = landmarkAt kps 12
          \<and> leftHip lm = landmarkAt kps 23 \<and> rightHip lm = landmarkAt kps 24
          \<and> updateModelFit ops (Some m) (Some kps) base options this
               = Returns (Some res, Some m', this')
          \<and> position res = lerp (modelPosition m)
               (position (targetTransform ops (optModelType options) (optSizeAdjustment options)
                  base lm))
               (1 - smoothingFactor this)
          \<and> scale res = lerp (modelScale m)
               (scale (targetTransform ops (optModelType options) (optSizeAdjustment options)
                  base lm))
               (1 - smoothingFactor this)
          \<and> userMeasurements this' = userMeasurements this1
          \<and> calibrate (Some kps) this = Returns
               (if \<bar>dot (normalize (leftArm kps)) (normalize (torsoAxis kps))\<bar> < 0.3
                   \<and> \<bar>dot (normalize (rightArm kps)) (normalize (torsoAxis kps))\<bar> < 0.3
                then (True, this1\<lparr> isCalibrated := True \<rparr>) else (False, this))"
    apply (intro exI conjI)
                     apply (rule m1)
                    apply simp
                   apply simp
                  apply simp
                 apply simp
                apply simp
               apply simp
              apply (rule getKeyLandmarks_eq)
             apply simp
            apply simp
           apply simp
          apply simp
         apply (rule u)
        apply simp
       apply simp
      apply (simp add: calculateFitQuality_userMeasurements)
     apply (rule c)
    done
qed

lemma brokenShoulder_landmarks:
  "landmarkAt (tposeKeypoints[11 := Null]) 11 = Vector3 0 0 0"
  "landmarkAt (tposeKeypoints[11 := Null]) 12 = Vector3 (- 1) 0 0"
  by (simp_all add: landmarkAt_def entryAt_def tposeKeypoints_def)

text \<open>
  An array of 33 \<open>null\<close> entries, on an instance that holds the measurements of the
  T-pose frame: every landmark is the origin, so extraction overwrites the stored
  measurements with zeros, solving returns a transform at the origin, and, every dot
  product being 0, the T-pose test passes and calibration commits the zero measurements.
  In the T-pose frame with the left shoulder replaced by \<open>null\<close> the shoulder width is
  1, the distance from the origin to the right shoulder, instead of 2.
\<close>

theorem keypoint_conversion_total_witness:
  "keypointToVector3 Null = Returns (Vector3 0 0 0)
   \<and> keypointToVector3 (Keypoint (Some 1) 2 3 1) = Returns (Vector3 1 (- 2) (- 3))
   \<and> calculateBodyMeasurements (Some (replicate 33 Null))
        (newClothingFit\<lparr> userMeasurements := exampleMeasured \<rparr>) = Returns newClothingFit
   \<and> calibrate (Some (replicate 33 Null)) (newClothingFit\<lparr> userMeasurements := exampleMeasured \<rparr>)
        = Returns (True, newClothingFit\<lparr> isCalibrated := True \<rparr>)
   \<and> (\<exists>res m' this'.
         updateModelFit exampleQuaternionOps (Some exampleModel) (Some (replicate 33 Null))
           exampleMeasured defaultOptions (newClothingFit\<lparr> userMeasurements := exampleMeasured \<rparr>)
           = Returns (Some res, Some m', this')
       \<and> position res = Vector3 0 0 0
       \<and> userMeasurements this' = userMeasurements newClothingFit)
   \<and> (\<exists>this1. calculateBodyMeasurements (Some (tposeKeypoints[11 := Null])) newClothingFit
                  = Returns this1
               \<and> shoulderWidth (userMeasurements this1) = 1)"
proof -
  let ?nulls = "replicate 33 Null"
  let ?held = "newClothingFit\<lparr> userMeasurements := exampleMeasured \<rparr>"
  have lm: "\<And>i. landmarkAt ?nulls i = Vector3 0 0 0"
    by (simp add: landmarkAt_def entryAt_def)
  have z: "distanceTo (Vector3 0 0 0) (Vector3 0 0 0) = 0"
    "multiplyScalar (addVectors (Vector3 0 0 0) (Vector3 0 0 0)) (1 / 2) = Vector3 0 0 0"
    by (simp_all add: distanceTo_def distanceToSquared_def addVectors_def multiplyScalar_def)
  have a: "leftArm ?nulls = Vector3 0 0 0" "rightArm ?nulls = Vector3 0 0 0"
    "torsoAxis ?nulls = Vector3 0 0 0"
    by (simp_all add: leftArm_def rightArm_def torsoAxis_def lm subVectors_def addVectors_def
          multiplyScalar_def)
  have d: "dot (normalize (Vector3 0 0 0)) (normalize (Vector3 0 0 0)) = 0"
    by (simp add: dot_normalize) (simp add: dot_def)
  have len: "33 \<le> length ?nulls" "33 \<le> length (tposeKeypoints[11 := Null])"
    by (simp_all add: length_tpose)
  from keypoint_conversion_total [of 2 3 1 1 ?nulls ?held exampleQuaternionOps "Some exampleModel"
      exampleMeasured defaultOptions 0 exampleModel] len(1)
  obtain this1 lm1 res m' this' where
      k: "keypointToVector3 Null = Returns (Vector3 0 0 0)"
        "keypointToVector3 (Keypoint (Some 1) 2 3 1) = Returns (Vector3 1 (- 2) (- 3))"
    and m: "calculateBodyMeasurements (Some ?nulls) ?held = Returns this1"
      "this1 = ?held\<lparr> userMeasurements := userMeasurements this1 \<rparr>"
      "shoulderWidth (userMeasurements this1) = 0" "hipWidth (userMeasurements this1) = 0"
      "torsoLength (userMeasurements this1) = 0" "armLength (userMeasurements this1) = 0"
      "legLength (userMeasurements this1) = 0"
    and g: "leftShoulder lm1 = Vector3 0 0 0" "rightShoulder lm1 = Vector3 0 0 0"
      "leftHip lm1 = Vector3 0 0 0" "rightHip lm1 = Vector3 0 0 0"
    and u: "updateModelFit exampleQuaternionOps (Some exampleModel) (Some ?nulls)
           exampleMeasured defaultOptions ?held = Returns (Some res, Some m', this')"
      "position res = lerp (modelPosition exampleModel)
         (position (targetTransform exampleQuaternionOps (optModelType defaultOptions)
            (optSizeAdjustment defaultOptions) exampleMeasured lm1))
         (1 - smoothingFactor ?held)"
      "userMeasurements this' = userMeasurements this1"
    and c: "calibrate (Some ?nulls) ?held = Returns (True, this1\<lparr> isCalibrated := True \<rparr>)"
    by (auto simp: lm z a d)
  have um: "userMeasurements this1 = userMeasurements newClothingFit"
    using m(3-7) by (cases "userMeasurements this1") (simp add: newClothingFit_def)
  have t1: "this1 = newClothingFit"
    using m(2) um by (simp add: newClothingFit_def)
  have p: "position res = Vector3 0 0 0"
    using u(2) g
    by (simp add: targetTransform_def Let_def optModelType_def defaultOptions_def z lerp_def
          exampleModel_def)
  from keypoint_conversion_total [of 2 3 1 1 "tposeKeypoints[11 := Null]" newClothingFit
      exampleQuaternionOps "Some exampleModel" exampleMeasured defaultOptions 0 exampleModel] len(2)
  obtain this2 where
      "calculateBodyMeasurements (Some (tposeKeypoints[11 := Null])) newClothingFit = Returns this2"
      "shoulderWidth (userMeasurements this2) = 1"
    by (auto simp: brokenShoulder_landmarks distanceTo_def distanceToSquared_def)
  with k m(1) u(1) u(3) c p um t1 show ?thesis by auto
qed

section \<open>Calibration polling\<close>

lemma extractKeypoints3D_empty:
  "extractKeypoints3D \<lparr> poseLandmarks = Some [], poseWorldLandmarks = Some [] \<rparr> = Returns []"
  by (simp add: extractKeypoints3D_def)

lemma calibrationCheck_noop: "calibrationCheck this = Returns this"
  by (simp add: calibrationCheck_def extractKeypoints3D_empty andThen_Returns calibrate_def)

lemma calibrationPolls_noop: "calibrationPolls n this = Returns this"
  by (induction n) (simp_all add: calibrationCheck_noop andThen_Returns)

text \<open>
  C7: the callback of the polling interval passes the literal object
  \<open>{ poseLandmarks: [], poseWorldLandmarks: [] }\<close> to \<open>extractKeypoints3D\<close>, not the
  latest result of the detector. So each poll hands \<open>calibrate\<close> an empty array and
  changes nothing, and any number of polls leaves the state as it was: a calibration
  run of a running try-on always ends in the timeout, with the ClothingFit state it
  started with, while \<open>calibrate\<close> on the T-pose frame itself returns true.
\<close>

theorem calibration_poll_never_succeeds:
  "calibrationCheck this = Returns this
   \<and> calibrationPolls n this = Returns this
   \<and> tryOnCalibrate n this =
       Returns (if isRunning this then calibrationTimeout (startCalibration this) else this)
   \<and> clothingFit (calibrationTimeout (startCalibration this)) = clothingFit this
   \<and> (\<exists>s. calibrate (Some tposeKeypoints) (clothingFit this) = Returns (True, s))"
proof (intro conjI)
  show "calibrationCheck this = Returns this" by (rule calibrationCheck_noop)
  show "calibrationPolls n this = Returns this" by (rule calibrationPolls_noop)
  show "tryOnCalibrate n this =
       Returns (if isRunning this then calibrationTimeout (startCalibration this) else this)"
    by (simp add: tryOnCalibrate_def calibrationPolls_noop andThen_Returns)
  show "clothingFit (calibrationTimeout (startCalibration this)) = clothingFit this"
    by (simp add: calibrationTimeout_def startCalibration_def Let_def)
  obtain s where "calculateBodyMeasurements (Some tposeKeypoints) (clothingFit this) = Returns s"
    using calculateBodyMeasurements_returns by blast
  then show "\<exists>s. calibrate (Some tposeKeypoints) (clothingFit this) = Returns (True, s)"
    using calibrate_success [of tposeKeypoints "clothingFit this" s]
    by (simp add: length_tpose tpose_check)
qed

end
